theory Spec2Isabelle
  imports Complex_Main "HOL-Library.Sublist"
begin

section \<open>GPUStatsMonitor: the callback of \<^verbatim>\<open>pytorch_lightning/callbacks/gpu_stats_monitor.py\<close>\<close>

text \<open>
  The callback samples \<^verbatim>\<open>nvidia-smi\<close> at the start and the end of every training batch,
  hands each sample to the trainer's logger, and measures the time inside a step and
  between two steps.

  Conventions of the embedding.
  \<^item> Numbers (Python floats: parsed readings, clock values, durations) are values of a type
    \<open>'a\<close> of which only \<open>0\<close>, \<open>-\<close>, \<open>*\<close> and numerals are used. No law of arithmetic is
    assumed, so the theorems hold for every interpretation of these operations, the
    rounding ones of IEEE doubles included.
  \<^item> Text is \<open>string\<close>: the characters are read as code points below 256
    (the tool's CSV output is ASCII).
  \<^item> A Python \<^verbatim>\<open>dict\<close> is the list of its items in insertion order.
  \<^item> An exception is a value of \<open>error\<close>.
\<close>

subsection \<open>Python built-ins used by the module\<close>

text \<open>A \<^verbatim>\<open>dict\<close> in insertion order; \<open>dict_set d k v\<close> is \<^verbatim>\<open>d[k] = v\<close>.\<close>

type_synonym 'a metrics = "(string \<times> 'a) list"

definition dict_set :: "'a metrics \<Rightarrow> string \<Rightarrow> 'a \<Rightarrow> 'a metrics" where
  "dict_set d k v =
     (if k \<in> fst ` set d then map (\<lambda>(k', v'). if k' = k then (k', v) else (k', v')) d
      else d @ [(k, v)])"

text \<open>A dict comprehension \<^verbatim>\<open>{k: v for ...}\<close> stores the generated items one after the other.\<close>

definition dict_of :: "(string \<times> 'a) list \<Rightarrow> 'a metrics" where
  "dict_of kvs = foldl (\<lambda>d (k, v). dict_set d k v) [] kvs"

text \<open>\<^verbatim>\<open>str(n)\<close> for a non-negative integer: its decimal digits.\<close>

definition digit_char :: "nat \<Rightarrow> char" where
  "digit_char d = ''0123456789'' ! d"

fun str_nat :: "nat \<Rightarrow> string" where
  "str_nat n = (if n < 10 then [digit_char n] else str_nat (n div 10) @ [digit_char (n mod 10)])"

declare str_nat.simps [simp del]

text \<open>
  \<^verbatim>\<open>str.isspace\<close> on code points below 256: tab, line feed, vertical tab, form feed,
  carriage return, the four separators 0x1C to 0x1F, space, NEL (0x85) and the
  no-break space (0xA0).
\<close>

definition isspace :: "char \<Rightarrow> bool" where
  "isspace c = (of_char c \<in> {9, 10, 11, 12, 13, 28, 29, 30, 31, 32, 133, 160 :: nat})"

text \<open>\<^verbatim>\<open>s.strip()\<close>: leading and trailing whitespace removed.\<close>

definition strip :: "string \<Rightarrow> string" where
  "strip s = rev (dropWhile isspace (rev (dropWhile isspace s)))"

text \<open>
  \<^verbatim>\<open>os.linesep\<close>. The module imports \<^verbatim>\<open>os\<close>; the value is the POSIX one, a single
  line feed.
\<close>

definition linesep :: char where
  "linesep = CHR 0x0A"

text \<open>
  \<^verbatim>\<open>s.split(sep)\<close> for a separator of one character: \<open>split sep [] s\<close>. The second
  argument holds, reversed, the characters of the piece being read. The empty string
  splits into one empty piece.
\<close>

fun split :: "char \<Rightarrow> string \<Rightarrow> string \<Rightarrow> string list" where
  "split sep acc [] = [rev acc]"
| "split sep acc (c # cs) =
     (if c = sep then rev acc # split sep [] cs else split sep (c # acc) cs)"

text \<open>\<^verbatim>\<open>sep.join(ls)\<close>, used to describe an output by its lines.\<close>

fun join :: "char \<Rightarrow> string list \<Rightarrow> string" where
  "join sep [] = []"
| "join sep [l] = l"
| "join sep (l # l' # ls) = l @ sep # join sep (l' # ls)"

subsection \<open>Exceptions and the external command\<close>

datatype error =
    MisconfigurationException string
  | CalledProcessError int
  | UnicodeDecodeError
  | TypeError
  | OSError
  | AttributeError

text \<open>
  What \<^verbatim>\<open>subprocess.run([shutil.which("nvidia-smi"), ...], encoding="utf-8", check=True)\<close>
  meets.
  \<^item> \<open>Exited returncode stdout\<close>: the process ran, both its output streams are valid UTF-8,
    and \<open>stdout\<close> is the decoded text of the standard output.
  \<^item> \<open>Undecodable returncode\<close>: the process ran and one of its output streams is not valid
    UTF-8. \<^verbatim>\<open>run\<close> decodes the streams while it reads them, before it looks at the return
    code, and raises \<^verbatim>\<open>UnicodeDecodeError\<close>.
  \<^item> \<open>NoPath\<close>: \<^verbatim>\<open>shutil.which\<close> returned \<^verbatim>\<open>None\<close>, the tool is absent; \<^verbatim>\<open>run\<close> raises
    \<^verbatim>\<open>TypeError\<close> on the \<^verbatim>\<open>None\<close> in its argument list.
  \<^item> \<open>NotStarted\<close>: there is a path and the operating system does not start the process;
    \<^verbatim>\<open>run\<close> raises \<^verbatim>\<open>OSError\<close>.
\<close>

datatype run_result = Exited int string | Undecodable int | NoPath | NotStarted

subsection \<open>\<^verbatim>\<open>_get_gpu_stat\<close>\<close>

text \<open>The key of one reading: \<^verbatim>\<open>f"gpu_{pitem}/gpu_id_{index} ({unit})"\<close>.\<close>

definition stat_name :: "string \<Rightarrow> string \<Rightarrow> nat \<Rightarrow> string" where
  "stat_name pitem unit index =
     ''gpu_'' @ pitem @ ''/gpu_id_'' @ str_nat index @ '' ('' @ unit @ '')''"

text \<open>
  \<open>get_gpu_stat flt smi pitem unit\<close> is \<^verbatim>\<open>_get_gpu_stat(pitem, unit)\<close>.
  \<^item> \<open>flt\<close> is Python's \<^verbatim>\<open>float\<close> on strings: \<open>None\<close> where it raises \<^verbatim>\<open>ValueError\<close>.
  \<^item> \<open>smi pitem\<close> is what running \<^verbatim>\<open>nvidia-smi --query-gpu={pitem} --format=csv,nounits,noheader\<close>
    gives at this call.

  The call of \<^verbatim>\<open>subprocess.run\<close> stands before the \<^verbatim>\<open>try\<close>: what it raises leaves the
  function. With \<^verbatim>\<open>check=True\<close> a non-zero return code raises \<^verbatim>\<open>CalledProcessError\<close>. The
  list comprehension inside \<^verbatim>\<open>try\<close> parses every piece; one \<^verbatim>\<open>ValueError\<close> replaces the
  whole list by \<^verbatim>\<open>[0]\<close>.
\<close>

definition get_gpu_stat ::
  "(string \<Rightarrow> 'a option) \<Rightarrow> (string \<Rightarrow> run_result) \<Rightarrow> string \<Rightarrow> string \<Rightarrow> error + ('a::zero) metrics"
where
  "get_gpu_stat flt smi pitem unit =
     (case smi pitem of
        NoPath \<Rightarrow> Inl TypeError
      | NotStarted \<Rightarrow> Inl OSError
      | Undecodable returncode \<Rightarrow> Inl UnicodeDecodeError
      | Exited returncode stdout \<Rightarrow>
          if returncode \<noteq> 0 then Inl (CalledProcessError returncode)
          else
            let gpu_usage =
                  (case those (map flt (split linesep [] (strip stdout))) of
                     Some usages \<Rightarrow> usages
                   | None \<Rightarrow> [0])
            in Inr (dict_of (map (\<lambda>(index, usage). (stat_name pitem unit index, usage))
                               (enumerate 0 gpu_usage))))"

subsection \<open>The monitor, the trainer and the outside world\<close>

text \<open>\<^verbatim>\<open>self._log_stats\<close>: the six flags given to \<^verbatim>\<open>__init__\<close>, never assigned again.\<close>

record log_stats =
  memory_utilization :: bool
  gpu_utilization :: bool
  intra_step_time :: bool
  inter_step_time :: bool
  fan_speed :: bool
  temperature :: bool

text \<open>
  What the hooks read of the \<^verbatim>\<open>trainer\<close>: whether \<^verbatim>\<open>trainer.logger\<close> is truthy (a logger
  is configured), \<^verbatim>\<open>trainer.on_gpu\<close> and \<^verbatim>\<open>trainer.global_step\<close>.
\<close>

record trainer =
  logger :: bool
  on_gpu :: bool
  global_step :: int

text \<open>
  An attribute of \<^verbatim>\<open>self\<close> that \<^verbatim>\<open>__init__\<close> does not create: missing until
  \<^verbatim>\<open>on_train_epoch_start\<close> assigns \<^verbatim>\<open>None\<close>, later a clock value.
\<close>

datatype 'a slot = Missing | PyNone | Stamp 'a

text \<open>
  The state the hooks work on.
  \<^item> \<open>snap_intra_step_time\<close>, \<open>snap_inter_step_time\<close>: the two attributes of \<^verbatim>\<open>self\<close>.
  \<^item> \<open>clock\<close>: the values the coming calls of \<^verbatim>\<open>time.time()\<close> return, \<open>clock s 0\<close> first.
  \<^item> \<open>logged\<close>: the calls \<^verbatim>\<open>trainer.logger.log_metrics(metrics, step=...)\<close> has received
    so far, oldest first.
\<close>

record 'a state =
  snap_intra_step_time :: "'a slot"
  snap_inter_step_time :: "'a slot"
  clock :: "nat \<Rightarrow> 'a"
  logged :: "('a metrics \<times> int) list"

text \<open>
  A statement sequence that may raise: the exception, if any, together with the state
  reached when it was raised (what was logged before stays logged).
\<close>

type_synonym 'a action = "'a state \<Rightarrow> error option \<times> 'a state"

definition and_then :: "'a action \<Rightarrow> 'a action \<Rightarrow> 'a action" where
  "and_then f g s = (case f s of (None, s') \<Rightarrow> g s' | (Some e, s') \<Rightarrow> (Some e, s'))"

definition if_set :: "bool \<Rightarrow> 'a action \<Rightarrow> 'a action" where
  "if_set b f s = (if b then f s else (None, s))"

text \<open>\<^verbatim>\<open>time.time()\<close>: the next clock value.\<close>

definition time_time :: "'a state \<Rightarrow> 'a \<times> 'a state" where
  "time_time s = (clock s 0, s\<lparr>clock := \<lambda>n. clock s (Suc n)\<rparr>)"

text \<open>
  \<^verbatim>\<open>trainer.logger.log_metrics(metrics, step=trainer.global_step)\<close> with a logger present.
\<close>

definition log_metrics :: "trainer \<Rightarrow> 'a metrics \<Rightarrow> 'a state \<Rightarrow> 'a state" where
  "log_metrics tr metrics s = s\<lparr>logged := logged s @ [(metrics, global_step tr)]\<rparr>"

text \<open>
  \<^verbatim>\<open>trainer.logger.log_metrics(self._get_gpu_stat(pitem, unit), step=trainer.global_step)\<close>.
  Python evaluates the callee \<^verbatim>\<open>trainer.logger.log_metrics\<close> before the arguments: without
  a logger the attribute lookup on \<^verbatim>\<open>None\<close> raises before the tool is run.
\<close>

definition log_gpu_stat ::
  "(string \<Rightarrow> 'a option) \<Rightarrow> (string \<Rightarrow> run_result) \<Rightarrow> trainer \<Rightarrow> string \<Rightarrow> string
     \<Rightarrow> ('a::zero) action"
where
  "log_gpu_stat flt smi tr pitem unit s =
     (if \<not> logger tr then (Some AttributeError, s)
      else case get_gpu_stat flt smi pitem unit of
             Inl e \<Rightarrow> (Some e, s)
           | Inr metrics \<Rightarrow> (None, log_metrics tr metrics s))"

definition log_usage ::
  "(string \<Rightarrow> 'a option) \<Rightarrow> (string \<Rightarrow> run_result) \<Rightarrow> trainer \<Rightarrow> ('a::zero) action"
where
  "log_usage flt smi tr = log_gpu_stat flt smi tr ''utilization.gpu'' ''%''"

definition log_memory ::
  "(string \<Rightarrow> 'a option) \<Rightarrow> (string \<Rightarrow> run_result) \<Rightarrow> trainer \<Rightarrow> ('a::zero) action"
where
  "log_memory flt smi tr =
     and_then (log_gpu_stat flt smi tr ''memory.used'' ''MB'')
    (and_then (log_gpu_stat flt smi tr ''memory.free'' ''MB'')
              (log_gpu_stat flt smi tr ''utilization.memory'' ''%''))"

subsection \<open>The hooks\<close>

text \<open>
  \<^verbatim>\<open>__init__\<close>: \<open>which\<close> is the value of \<^verbatim>\<open>shutil.which("nvidia-smi")\<close>. The object that comes
  out holds the flags; its two timestamp attributes do not exist yet.
\<close>

definition init :: "string option \<Rightarrow> log_stats \<Rightarrow> error + log_stats" where
  "init which flags =
     (if which = None
      then Inl (MisconfigurationException
             ''Cannot use GPUStatsMonitor callback because NVIDIA driver is not installed.'')
      else Inr flags)"

text \<open>
  \<^verbatim>\<open>on_train_start\<close>: raises without a logger; otherwise the result says whether the
  warning about not running on a GPU was issued.
\<close>

definition on_train_start :: "trainer \<Rightarrow> error + bool" where
  "on_train_start tr =
     (if \<not> logger tr
      then Inl (MisconfigurationException
             ''Cannot use GPUStatsMonitor callback with Trainer that has no logger.'')
      else Inr (\<not> on_gpu tr))"

definition on_train_epoch_start :: "'a state \<Rightarrow> 'a state" where
  "on_train_epoch_start s = s\<lparr>snap_intra_step_time := PyNone, snap_inter_step_time := PyNone\<rparr>"

text \<open>
  \<^verbatim>\<open>flag and self.snap\<close>: the attribute is read only when the flag is set; a missing
  attribute raises; \<^verbatim>\<open>None\<close> and a clock value equal to zero are falsy. When the test
  passes, the metric \<open>name\<close> is logged with \<^verbatim>\<open>(time.time() - snap) * 1000\<close>.
\<close>

definition log_elapsed :: "trainer \<Rightarrow> string \<Rightarrow> bool \<Rightarrow> 'a slot \<Rightarrow> ('a::{zero,minus,times,numeral}) action" where
  "log_elapsed tr name flag snap s =
     (if \<not> flag then (None, s)
      else case snap of
             Missing \<Rightarrow> (Some AttributeError, s)
           | PyNone \<Rightarrow> (None, s)
           | Stamp t \<Rightarrow>
               if t = 0 then (None, s)
               else if \<not> logger tr then (Some AttributeError, s)
               else let (now, s') = time_time s
                    in (None, log_metrics tr [(name, (now - t) * 1000)] s'))"

text \<open>
  The two batch hooks carry the decorator \<^verbatim>\<open>rank_zero_only\<close>, defined outside the module,
  under which the body runs on the process of rank 0 and nowhere else. The definitions
  are the bodies: the hooks as they run on that process.
\<close>

definition on_train_batch_start ::
  "(string \<Rightarrow> 'a option) \<Rightarrow> (string \<Rightarrow> run_result) \<Rightarrow> log_stats \<Rightarrow> trainer
     \<Rightarrow> ('a::{zero,minus,times,numeral}) action"
where
  "on_train_batch_start flt smi cfg tr =
     and_then (if_set (gpu_utilization cfg) (log_usage flt smi tr))
    (and_then (if_set (memory_utilization cfg) (log_memory flt smi tr))
    (and_then (\<lambda>s. log_elapsed tr ''batch_time/inter_step (ms)''
                      (inter_step_time cfg) (snap_inter_step_time s) s)
              (if_set (intra_step_time cfg)
                 (\<lambda>s. let (now, s') = time_time s
                      in (None, s'\<lparr>snap_intra_step_time := Stamp now\<rparr>)))))"

definition on_train_batch_end ::
  "(string \<Rightarrow> 'a option) \<Rightarrow> (string \<Rightarrow> run_result) \<Rightarrow> log_stats \<Rightarrow> trainer
     \<Rightarrow> ('a::{zero,minus,times,numeral}) action"
where
  "on_train_batch_end flt smi cfg tr =
     and_then (if_set (gpu_utilization cfg) (log_usage flt smi tr))
    (and_then (if_set (memory_utilization cfg) (log_memory flt smi tr))
    (and_then (if_set (fan_speed cfg) (log_gpu_stat flt smi tr ''fan.speed'' ''%''))
    (and_then (if_set (temperature cfg)
                 (and_then (log_gpu_stat flt smi tr ''temperature.gpu'' ''degrees C'')
                           (log_gpu_stat flt smi tr ''temperature.memory'' ''degrees C'')))
    (and_then (if_set (inter_step_time cfg)
                 (\<lambda>s. let (now, s') = time_time s
                      in (None, s'\<lparr>snap_inter_step_time := Stamp now\<rparr>)))
              (\<lambda>s. log_elapsed tr ''batch_time/intra_step (ms)''
                      (intra_step_time cfg) (snap_intra_step_time s) s)))))"

subsection \<open>Calls in sequence\<close>

text \<open>
  A hook call made while the coming values of \<^verbatim>\<open>time.time()\<close> are \<open>ticks\<close>; \<open>at_time now\<close>
  is the call during which the clock stands at \<open>now\<close>, the \<^verbatim>\<open>on_step_start(now)\<close> and
  \<^verbatim>\<open>on_step_end(now)\<close> of the specification.
\<close>

definition with_clock :: "(nat \<Rightarrow> 'a) \<Rightarrow> 'a action \<Rightarrow> 'a action" where
  "with_clock ticks f s = f (s\<lparr>clock := ticks\<rparr>)"

definition at_time :: "'a \<Rightarrow> 'a action \<Rightarrow> 'a action" where
  "at_time now = with_clock (\<lambda>_. now)"

text \<open>
  What one hook call meets: the answers of the tool, the trainer as it is then, and the
  clock. A step is the pair of its two calls. \<open>run_steps\<close> makes the calls of the steps
  one after the other; an exception ends the sequence. \<open>run_epoch\<close> is
  \<^verbatim>\<open>on_train_epoch_start\<close> followed by the steps.
\<close>

type_synonym 'a call = "(string \<Rightarrow> run_result) \<times> trainer \<times> (nat \<Rightarrow> 'a)"

definition call_start ::
  "(string \<Rightarrow> 'a option) \<Rightarrow> log_stats \<Rightarrow> 'a call \<Rightarrow> ('a::{zero,minus,times,numeral}) action"
where
  "call_start flt cfg c =
     (case c of (smi, tr, ticks) \<Rightarrow> with_clock ticks (on_train_batch_start flt smi cfg tr))"

definition call_end ::
  "(string \<Rightarrow> 'a option) \<Rightarrow> log_stats \<Rightarrow> 'a call \<Rightarrow> ('a::{zero,minus,times,numeral}) action"
where
  "call_end flt cfg c =
     (case c of (smi, tr, ticks) \<Rightarrow> with_clock ticks (on_train_batch_end flt smi cfg tr))"

fun run_steps ::
  "(string \<Rightarrow> 'a option) \<Rightarrow> log_stats \<Rightarrow> ('a call \<times> 'a call) list
     \<Rightarrow> ('a::{zero,minus,times,numeral}) action"
where
  "run_steps flt cfg [] = (\<lambda>s. (None, s))"
| "run_steps flt cfg ((c, c') # steps) =
     and_then (call_start flt cfg c) (and_then (call_end flt cfg c') (run_steps flt cfg steps))"

definition run_epoch ::
  "(string \<Rightarrow> 'a option) \<Rightarrow> log_stats \<Rightarrow> ('a call \<times> 'a call) list
     \<Rightarrow> ('a::{zero,minus,times,numeral}) action"
where
  "run_epoch flt cfg steps s = run_steps flt cfg steps (on_train_epoch_start s)"

text \<open>Step-end calls one after the other, with no step-start between them.\<close>

fun end_calls ::
  "(string \<Rightarrow> 'a option) \<Rightarrow> log_stats \<Rightarrow> 'a call list
     \<Rightarrow> ('a::{zero,minus,times,numeral}) action"
where
  "end_calls flt cfg [] = (\<lambda>s. (None, s))"
| "end_calls flt cfg (c # cs) = and_then (call_end flt cfg c) (end_calls flt cfg cs)"

text \<open>
  Modelled from the spec: the host training loop. The \<^verbatim>\<open>Trainer\<close> that owns the loop is
  not part of the module. By the specification the two preconditions are checked at
  attach time, configuration errors halt startup, and the host then fires epoch-start,
  step-start and step-end in that order. \<open>fit\<close> constructs the monitor, calls
  \<^verbatim>\<open>on_train_start\<close> once and runs the epochs; an exception ends the run where it is raised.
\<close>

fun run_epochs ::
  "(string \<Rightarrow> 'a option) \<Rightarrow> log_stats \<Rightarrow> ('a call \<times> 'a call) list list
     \<Rightarrow> ('a::{zero,minus,times,numeral}) action"
where
  "run_epochs flt cfg [] = (\<lambda>s. (None, s))"
| "run_epochs flt cfg (steps # epochs) =
     and_then (run_epoch flt cfg steps) (run_epochs flt cfg epochs)"

definition fit ::
  "(string \<Rightarrow> 'a option) \<Rightarrow> string option \<Rightarrow> log_stats \<Rightarrow> trainer
     \<Rightarrow> ('a call \<times> 'a call) list list \<Rightarrow> ('a::{zero,minus,times,numeral}) action"
where
  "fit flt which flags tr epochs s =
     (case init which flags of
        Inl e \<Rightarrow> (Some e, s)
      | Inr cfg \<Rightarrow>
          (case on_train_start tr of
             Inl e \<Rightarrow> (Some e, s)
           | Inr warned \<Rightarrow> run_epochs flt cfg epochs s))"

subsection \<open>Reading what was logged\<close>

text \<open>The calls the logger received between two states of one run.\<close>

definition emitted :: "'a state \<Rightarrow> 'a state \<Rightarrow> ('a metrics \<times> int) list" where
  "emitted s s' = drop (length (logged s)) (logged s')"

text \<open>The logger calls whose metrics have the key \<open>name\<close>.\<close>

definition batches_named :: "string \<Rightarrow> ('a metrics \<times> int) list \<Rightarrow> ('a metrics \<times> int) list" where
  "batches_named name calls = filter (\<lambda>call. name \<in> fst ` set (fst call)) calls"

text \<open>A logger call that carries a reading of one of the three memory fields.\<close>

definition memory_key :: "string \<Rightarrow> bool" where
  "memory_key k =
     (prefix ''gpu_memory.used/'' k \<or> prefix ''gpu_memory.free/'' k
      \<or> prefix ''gpu_utilization.memory/'' k)"

definition memory_batch :: "'a metrics \<times> int \<Rightarrow> bool" where
  "memory_batch call = list_ex (\<lambda>kv. memory_key (fst kv)) (fst call)"

text \<open>
  The device queries of a hook taken together: \<open>query_all\<close> asks for the fields of a list
  in order and gives the exception that ended the sequence, if any, with the logger
  calls made until then; \<open>emit\<close> is the action that makes these calls. The lists are the
  fields the two hooks ask for.
\<close>

fun query_all ::
  "(string \<Rightarrow> 'a option) \<Rightarrow> (string \<Rightarrow> run_result) \<Rightarrow> trainer \<Rightarrow> (string \<times> string) list
     \<Rightarrow> error option \<times> (('a::zero) metrics \<times> int) list"
where
  "query_all flt smi tr [] = (None, [])"
| "query_all flt smi tr ((pitem, unit) # rest) =
     (if \<not> logger tr then (Some AttributeError, [])
      else case get_gpu_stat flt smi pitem unit of
             Inl e \<Rightarrow> (Some e, [])
           | Inr metrics \<Rightarrow>
               (case query_all flt smi tr rest of
                  (r, calls) \<Rightarrow> (r, (metrics, global_step tr) # calls)))"

definition emit :: "error option \<times> ('a metrics \<times> int) list \<Rightarrow> 'a action" where
  "emit x s = (fst x, s\<lparr>logged := logged s @ snd x\<rparr>)"

definition start_fields :: "log_stats \<Rightarrow> (string \<times> string) list" where
  "start_fields cfg =
     (if gpu_utilization cfg then [(''utilization.gpu'', ''%'')] else []) @
     (if memory_utilization cfg
      then [(''memory.used'', ''MB''), (''memory.free'', ''MB''), (''utilization.memory'', ''%'')]
      else [])"

definition end_fields :: "log_stats \<Rightarrow> (string \<times> string) list" where
  "end_fields cfg =
     start_fields cfg @
     (if fan_speed cfg then [(''fan.speed'', ''%'')] else []) @
     (if temperature cfg
      then [(''temperature.gpu'', ''degrees C''), (''temperature.memory'', ''degrees C'')]
      else [])"

text \<open>
  The logger call of a timing test \<^verbatim>\<open>flag and self.snap\<close> that reads the clock value
  \<open>now\<close>: one call when the flag is set and the attribute holds a non-zero clock value,
  none otherwise.
\<close>

definition elapsed_calls ::
  "trainer \<Rightarrow> string \<Rightarrow> bool \<Rightarrow> 'a slot \<Rightarrow> 'a
     \<Rightarrow> (('a::{zero,minus,times,numeral}) metrics \<times> int) list"
where
  "elapsed_calls tr name flag snap now =
     (case snap of
        Stamp t \<Rightarrow> if flag \<and> t \<noteq> 0 then [([(name, (now - t) * 1000)], global_step tr)] else []
      | _ \<Rightarrow> [])"

subsection \<open>A parser for concrete evaluations\<close>

text \<open>
  The theorems hold for every parser \<open>flt\<close>. Where a concrete one is needed,
  \<open>float_of_digits\<close> stands for Python's \<^verbatim>\<open>float\<close>: it agrees with it on the non-empty
  strings of ASCII digits, which it reads as decimal numbers, and it is evaluated below
  only on such strings and on strings that \<^verbatim>\<open>float\<close> rejects.
\<close>

definition float_of_digits :: "string \<Rightarrow> ('a::semiring_1) option" where
  "float_of_digits s =
     (if s \<noteq> [] \<and> list_all (\<lambda>c. (48::nat) \<le> of_char c \<and> of_char c \<le> (57::nat)) s
      then Some (of_nat (foldl (\<lambda>n c. 10 * n + (of_char c - 48)) (0::nat) s))
      else None)"

subsection \<open>Concrete inputs\<close>

text \<open>
  A monitor just constructed, with nothing logged yet; a trainer with a logger at a given
  step; three settings of the flags.
\<close>

definition fresh :: "real state" where
  "fresh = \<lparr>snap_intra_step_time = Missing, snap_inter_step_time = Missing,
             clock = (\<lambda>_. 0), logged = []\<rparr>"

definition trainer_at :: "int \<Rightarrow> trainer" where
  "trainer_at step = \<lparr>logger = True, on_gpu = True, global_step = step\<rparr>"

definition all_off :: log_stats where
  "all_off = \<lparr>memory_utilization = False, gpu_utilization = False, intra_step_time = False,
               inter_step_time = False, fan_speed = False, temperature = False\<rparr>"

definition timing_only :: log_stats where
  "timing_only = all_off\<lparr>intra_step_time := True, inter_step_time := True\<rparr>"

definition memory_only :: log_stats where
  "memory_only = all_off\<lparr>memory_utilization := True\<rparr>"

section \<open>Properties\<close>

subsection \<open>Definitions unfolded when a concrete run is evaluated\<close>

lemmas hook_defs =
  on_train_batch_start_def on_train_batch_end_def on_train_epoch_start_def and_then_def if_set_def
  log_usage_def log_memory_def log_gpu_stat_def log_metrics_def log_elapsed_def time_time_def
  at_time_def with_clock_def call_start_def call_end_def run_epoch_def

lemmas input_defs = fresh_def trainer_at_def all_off_def timing_only_def memory_only_def

lemmas stat_defs =
  get_gpu_stat_def dict_of_def dict_set_def stat_name_def str_nat.simps digit_char_def
  strip_def isspace_def linesep_def float_of_digits_def

subsection \<open>Splitting and joining\<close>

lemma split_no_sep: "sep \<notin> set l \<Longrightarrow> split sep acc l = [rev acc @ l]"
  by (induction l arbitrary: acc) auto

lemma split_sep:
  "sep \<notin> set l \<Longrightarrow> split sep acc (l @ sep # rest) = (rev acc @ l) # split sep [] rest"
  by (induction l arbitrary: acc) auto

text \<open>An output made of lines that hold no separator splits back into these lines.\<close>

lemma split_join:
  "ls \<noteq> [] \<Longrightarrow> \<forall>l\<in>set ls. sep \<notin> set l \<Longrightarrow> split sep [] (join sep ls) = ls"
proof (induction sep ls rule: join.induct)
  case (1 sep)
  then show ?case by simp
next
  case (2 sep l)
  then show ?case by (simp add: split_no_sep)
next
  case (3 sep l l' ls)
  then show ?case by (simp add: split_sep)
qed

subsection \<open>Distinct indices give distinct keys\<close>

lemma digit_char_inj: "a < 10 \<Longrightarrow> b < 10 \<Longrightarrow> digit_char a = digit_char b \<Longrightarrow> a = b"
proof -
  assume a: "a < 10" and b: "b < 10" and eq: "digit_char a = digit_char b"
  have "distinct ''0123456789''" by simp
  with a b eq show "a = b"
    unfolding digit_char_def by (subst (asm) nth_eq_iff_index_eq) simp_all
qed

lemma str_nat_nonempty: "str_nat n \<noteq> []"
  by (subst str_nat.simps) simp

lemma last_str_nat: "last (str_nat n) = digit_char (n mod 10)"
  by (subst str_nat.simps) simp

lemma butlast_str_nat: "butlast (str_nat n) = (if n < 10 then [] else str_nat (n div 10))"
  by (subst str_nat.simps) simp

lemma str_nat_inj: "str_nat n = str_nat m \<Longrightarrow> n = m"
proof (induction n arbitrary: m rule: less_induct)
  case (less n)
  from less.prems have "digit_char (n mod 10) = digit_char (m mod 10)"
    by (metis last_str_nat)
  then have units: "n mod 10 = m mod 10"
    by (intro digit_char_inj) simp_all
  from less.prems
  have front: "(if n < 10 then [] else str_nat (n div 10)) = (if m < 10 then [] else str_nat (m div 10))"
    by (metis butlast_str_nat)
  show ?case
  proof (cases "n < 10")
    case True
    with front have "m < 10"
      using str_nat_nonempty [of "m div 10"] by (auto split: if_splits)
    with True units show ?thesis by simp
  next
    case False
    with front have "str_nat (n div 10) = str_nat (m div 10)"
      using str_nat_nonempty [of "n div 10"] by (auto split: if_splits)
    moreover from False have "n div 10 < n" by simp
    ultimately have "n div 10 = m div 10" by (rule less.IH [rotated])
    with units show ?thesis by (metis div_mult_mod_eq)
  qed
qed

lemma stat_name_inj: "stat_name pitem unit i = stat_name pitem unit j \<Longrightarrow> i = j"
  by (simp add: stat_name_def str_nat_inj)

lemma stat_names_keys:
  "map fst (map (\<lambda>(index, usage). (f index, usage)) (enumerate n us)) = map f [n..<n + length us]"
  by (rule nth_equalityI) (simp_all add: nth_enumerate_eq)

lemma stat_names_distinct:
  "distinct (map fst (map (\<lambda>(index, usage). (stat_name pitem unit index, usage)) (enumerate n us)))"
proof -
  have "distinct (map (stat_name pitem unit) [n..<n + length us])"
    by (simp add: distinct_map inj_on_def) (blast dest: stat_name_inj)
  then show ?thesis by (simp only: stat_names_keys)
qed

subsection \<open>A comprehension with distinct keys keeps every item\<close>

lemma dict_set_fresh: "k \<notin> fst ` set d \<Longrightarrow> dict_set d k v = d @ [(k, v)]"
  by (simp add: dict_set_def)

lemma foldl_dict_set:
  "distinct (map fst (d @ kvs)) \<Longrightarrow> foldl (\<lambda>d (k, v). dict_set d k v) d kvs = d @ kvs"
proof (induction kvs arbitrary: d)
  case Nil
  then show ?case by simp
next
  case (Cons kv kvs)
  obtain k v where kv: "kv = (k, v)" by (cases kv)
  from Cons.prems kv have fresh: "k \<notin> fst ` set d" by auto
  from Cons.prems kv have "distinct (map fst ((d @ [(k, v)]) @ kvs))" by simp
  from Cons.IH [OF this] fresh kv show ?case by (simp add: dict_set_fresh)
qed

lemma dict_of_distinct: "distinct (map fst kvs) \<Longrightarrow> dict_of kvs = kvs"
  using foldl_dict_set [of "[]" kvs] by (simp add: dict_of_def)

subsection \<open>\<^verbatim>\<open>_get_gpu_stat\<close> after a successful run of the tool\<close>

lemma get_gpu_stat_exit0:
  assumes "smi pitem = Exited 0 out"
  shows "get_gpu_stat flt smi pitem unit =
     Inr (map (\<lambda>(index, usage). (stat_name pitem unit index, usage))
            (enumerate 0 (case those (map flt (split linesep [] (strip out))) of
                            Some usages \<Rightarrow> usages | None \<Rightarrow> [0])))"
  using assms by (simp add: get_gpu_stat_def dict_of_distinct [OF stat_names_distinct])

lemma those_map_Some: "those (map Some vs) = Some vs"
  by (induction vs) simp_all


lemma enumerate_names:
  "map (\<lambda>(index, usage). (f index, usage)) (enumerate 0 vs) = map (\<lambda>i. (f i, vs ! i)) [0..<length vs]"
  by (rule nth_equalityI) (simp_all add: nth_enumerate_eq)

text \<open>
  Claim C1. The tool exits with status 0 and its output, stripped, is made of the \<open>N\<close>
  lines \<open>ls\<close>, each of which \<^verbatim>\<open>float\<close> parses, line \<open>i\<close> to \<open>vs ! i\<close>. Then
  \<^verbatim>\<open>_get_gpu_stat(pitem, unit)\<close> returns a mapping of exactly \<open>N\<close> entries with distinct
  keys, the entry of line \<open>i\<close> having the key
  \<^verbatim>\<open>"gpu_" + pitem + "/gpu_id_" + str(i) + " (" + unit + ")"\<close> and the value \<open>vs ! i\<close>, in
  line order.
\<close>

theorem get_gpu_stat_numeric_lines:
  assumes run: "smi pitem = Exited 0 out"
    and out: "strip out = join linesep ls"
    and ne: "ls \<noteq> []"
    and nl: "\<forall>l\<in>set ls. linesep \<notin> set l"
    and len: "length vs = length ls"
    and flt: "\<forall>i<length ls. flt (ls ! i) = Some (vs ! i)"
  shows "\<exists>d. get_gpu_stat flt smi pitem unit = Inr d \<and> length d = length ls \<and>
           distinct (map fst d) \<and>
           d = map (\<lambda>i. (''gpu_'' @ pitem @ ''/gpu_id_'' @ str_nat i @ '' ('' @ unit @ '')'', vs ! i))
                 [0..<length ls]"
proof -
  have pieces: "split linesep [] (strip out) = ls"
    using out ne nl by (simp add: split_join)
  have "map flt ls = map Some vs"
    using len flt by (intro nth_equalityI) simp_all
  then have parsed: "those (map flt ls) = Some vs"
    by (simp add: those_map_Some)
  let ?d = "map (\<lambda>(index, usage). (stat_name pitem unit index, usage)) (enumerate 0 vs)"
  have res: "get_gpu_stat flt smi pitem unit = Inr ?d"
    using run pieces parsed by (simp add: get_gpu_stat_exit0)
  have dist: "distinct (map fst ?d)" by (rule stat_names_distinct)
  have shape: "?d = map (\<lambda>i. (''gpu_'' @ pitem @ ''/gpu_id_'' @ str_nat i @ '' ('' @ unit @ '')'', vs ! i))
                 [0..<length ls]"
    using len enumerate_names [of "stat_name pitem unit" vs] by (simp add: stat_name_def)
  have "length ?d = length ls" using len by simp
  with res dist shape show ?thesis by blast
qed

text \<open>
  The instance of the specification: the output \<^verbatim>\<open>"10\n20\n30"\<close> for the field
  \<^verbatim>\<open>utilization.gpu\<close> with the unit \<^verbatim>\<open>%\<close>.
\<close>

theorem get_gpu_stat_numeric_lines_witness:
  "get_gpu_stat float_of_digits (\<lambda>_. Exited 0 ''10\<newline>20\<newline>30'') ''utilization.gpu'' ''%'' =
     Inr [(''gpu_utilization.gpu/gpu_id_0 (%)'', 10 :: real),
          (''gpu_utilization.gpu/gpu_id_1 (%)'', 20),
          (''gpu_utilization.gpu/gpu_id_2 (%)'', 30)]"
  using get_gpu_stat_numeric_lines [of "\<lambda>_. Exited 0 ''10\<newline>20\<newline>30''" "''utilization.gpu''"
      "''10\<newline>20\<newline>30''" "[''10'', ''20'', ''30'']" "[10, 20, 30 :: real]" float_of_digits "''%''"]
  by (simp add: strip_def isspace_def linesep_def float_of_digits_def str_nat.simps digit_char_def
      All_less_Suc2 numeral_3_eq_3)




subsection \<open>\<^verbatim>\<open>_get_gpu_stat\<close> after a failed run of the tool\<close>

text \<open>
  Claim C3. When the tool cannot be started (it is absent, or the system does not start
  it) or exits with a non-zero status, whether its output decodes or not,
  \<^verbatim>\<open>_get_gpu_stat\<close> raises and returns no mapping at all, the zero fallback included.
\<close>

theorem get_gpu_stat_invocation_failure:
  assumes "smi pitem = NotStarted \<or> smi pitem = NoPath \<or>
           (\<exists>returncode out. smi pitem = Exited returncode out \<and> returncode \<noteq> 0) \<or>
           (\<exists>returncode. smi pitem = Undecodable returncode \<and> returncode \<noteq> 0)"
  shows "get_gpu_stat flt smi pitem unit =
           Inl (case smi pitem of Exited returncode out \<Rightarrow> CalledProcessError returncode
                | Undecodable returncode \<Rightarrow> UnicodeDecodeError
                | NoPath \<Rightarrow> TypeError
                | NotStarted \<Rightarrow> OSError) \<and>
         (\<forall>d. get_gpu_stat flt smi pitem unit \<noteq> Inr d)"
  using assms by (auto simp: get_gpu_stat_def)

text \<open>
  An exit status 1 with the parseable output \<^verbatim>\<open>0\<close>, a tool that does not start, and an
  absent tool.
\<close>

theorem get_gpu_stat_invocation_failure_witness:
  "get_gpu_stat float_of_digits (\<lambda>_. Exited 1 ''0'') ''fan.speed'' ''%''
     = (Inl (CalledProcessError 1) :: error + real metrics) \<and>
   get_gpu_stat float_of_digits (\<lambda>_. Exited 1 ''0'') ''fan.speed'' ''%''
     \<noteq> Inr [(''gpu_fan.speed/gpu_id_0 (%)'', 0 :: real)] \<and>
   get_gpu_stat float_of_digits (\<lambda>_. NotStarted) ''fan.speed'' ''%''
     = (Inl OSError :: error + real metrics) \<and>
   get_gpu_stat float_of_digits (\<lambda>_. NoPath) ''fan.speed'' ''%''
     = (Inl TypeError :: error + real metrics)"
  using get_gpu_stat_invocation_failure [of "\<lambda>_. Exited 1 ''0''" "''fan.speed''"
      "float_of_digits :: string \<Rightarrow> real option" "''%''"]
    get_gpu_stat_invocation_failure [of "\<lambda>_. NotStarted" "''fan.speed''"
      "float_of_digits :: string \<Rightarrow> real option" "''%''"]
    get_gpu_stat_invocation_failure [of "\<lambda>_. NoPath" "''fan.speed''"
      "float_of_digits :: string \<Rightarrow> real option" "''%''"]
  by simp

subsection \<open>The device queries of a hook\<close>

lemma and_then_assoc: "and_then (and_then f g) h = and_then f (and_then g h)"
  by (rule ext) (simp add: and_then_def split: prod.splits option.splits)

lemma and_then_emit_emit:
  "and_then (emit x) (emit y) =
     emit (case x of (None, calls) \<Rightarrow> (fst y, calls @ snd y) | (Some e, calls) \<Rightarrow> (Some e, calls))"
  by (rule ext) (simp add: and_then_def emit_def split: prod.splits option.splits)

lemma query_all_append:
  "query_all flt smi tr (xs @ ys) =
     (case query_all flt smi tr xs of
        (None, calls) \<Rightarrow> (fst (query_all flt smi tr ys), calls @ snd (query_all flt smi tr ys))
      | (Some e, calls) \<Rightarrow> (Some e, calls))"
  by (induction xs) (auto split: prod.splits option.splits sum.splits)

lemma emit_query_append:
  "and_then (emit (query_all flt smi tr xs)) (emit (query_all flt smi tr ys)) =
     emit (query_all flt smi tr (xs @ ys))"
  by (simp add: and_then_emit_emit query_all_append)

lemma log_gpu_stat_emit:
  "log_gpu_stat flt smi tr pitem unit = emit (query_all flt smi tr [(pitem, unit)])"
  by (rule ext) (simp add: log_gpu_stat_def emit_def log_metrics_def split: sum.splits)

lemma emit_nothing: "emit (None, []) = (\<lambda>s. (None, s))"
  by (rule ext) (simp add: emit_def)

lemma if_set_emit:
  "if_set b (emit (query_all flt smi tr xs)) = emit (query_all flt smi tr (if b then xs else []))"
  by (rule ext) (simp add: if_set_def emit_nothing)

lemma log_usage_emit:
  "log_usage flt smi tr = emit (query_all flt smi tr [(''utilization.gpu'', ''%'')])"
  by (simp add: log_usage_def log_gpu_stat_emit)

lemma log_memory_emit:
  "log_memory flt smi tr =
     emit (query_all flt smi tr
       [(''memory.used'', ''MB''), (''memory.free'', ''MB''), (''utilization.memory'', ''%'')])"
  unfolding log_memory_def log_gpu_stat_emit emit_query_append by simp

lemma emit_query_append_rest:
  "and_then (emit (query_all flt smi tr xs)) (and_then (emit (query_all flt smi tr ys)) rest) =
     and_then (emit (query_all flt smi tr (xs @ ys))) rest"
  by (simp add: and_then_assoc [symmetric] emit_query_append)

lemma on_train_batch_start_split:
  "on_train_batch_start flt smi cfg tr =
     and_then (emit (query_all flt smi tr (start_fields cfg)))
    (and_then (\<lambda>s. log_elapsed tr ''batch_time/inter_step (ms)''
                      (inter_step_time cfg) (snap_inter_step_time s) s)
              (if_set (intra_step_time cfg)
                 (\<lambda>s. let (now, s') = time_time s
                      in (None, s'\<lparr>snap_intra_step_time := Stamp now\<rparr>))))"
  unfolding on_train_batch_start_def log_usage_emit log_memory_emit if_set_emit
    emit_query_append_rest start_fields_def ..

lemma on_train_batch_end_split:
  "on_train_batch_end flt smi cfg tr =
     and_then (emit (query_all flt smi tr (end_fields cfg)))
    (and_then (if_set (inter_step_time cfg)
                 (\<lambda>s. let (now, s') = time_time s
                      in (None, s'\<lparr>snap_inter_step_time := Stamp now\<rparr>)))
              (\<lambda>s. log_elapsed tr ''batch_time/intra_step (ms)''
                      (intra_step_time cfg) (snap_intra_step_time s) s))"
  unfolding on_train_batch_end_def log_usage_emit log_memory_emit log_gpu_stat_emit
    emit_query_append if_set_emit emit_query_append_rest end_fields_def start_fields_def
  by (simp only: append_Cons append_Nil append_assoc)

subsection \<open>The keys of the sampled mappings\<close>

lemma split_nonempty: "split sep acc s \<noteq> []"
  by (induction s arbitrary: acc) auto

lemma those_length: "those xs = Some ys \<Longrightarrow> length ys = length xs"
  by (induction xs arbitrary: ys) (auto split: option.splits)

lemma get_gpu_stat_shape:
  assumes "get_gpu_stat flt smi pitem unit = Inr d"
  shows "\<exists>us. us \<noteq> [] \<and> d = map (\<lambda>(index, usage). (stat_name pitem unit index, usage)) (enumerate 0 us)"
proof -
  from assms obtain out where run: "smi pitem = Exited 0 out"
    by (auto simp: get_gpu_stat_def split: run_result.splits if_splits)
  let ?us = "case those (map flt (split linesep [] (strip out))) of Some usages \<Rightarrow> usages | None \<Rightarrow> [0]"
  have "?us \<noteq> []"
    using split_nonempty [of linesep "[]" "strip out"]
    by (auto split: option.splits dest: those_length)
  moreover have "d = map (\<lambda>(index, usage). (stat_name pitem unit index, usage)) (enumerate 0 ?us)"
    using assms run get_gpu_stat_exit0 [of smi pitem out flt unit] by simp
  ultimately show ?thesis by blast
qed

lemma get_gpu_stat_keys:
  assumes "get_gpu_stat flt smi pitem unit = Inr d"
  shows "d \<noteq> []" and "k \<in> fst ` set d \<Longrightarrow> \<exists>i. k = stat_name pitem unit i"
proof -
  from get_gpu_stat_shape [OF assms] obtain us where us: "us \<noteq> []"
    and d: "d = map (\<lambda>(index, usage). (stat_name pitem unit index, usage)) (enumerate 0 us)"
    by blast
  from d have "length d = length us" by simp
  with us show "d \<noteq> []" by auto
  assume "k \<in> fst ` set d"
  with d show "\<exists>i. k = stat_name pitem unit i" by auto
qed

lemma query_all_calls:
  "call \<in> set (snd (query_all flt smi tr fs)) \<Longrightarrow>
     snd call = global_step tr \<and>
     (\<exists>pitem unit. (pitem, unit) \<in> set fs \<and> get_gpu_stat flt smi pitem unit = Inr (fst call))"
proof (induction fs)
  case Nil
  then show ?case by simp
next
  case (Cons f fs)
  obtain pitem unit where f: "f = (pitem, unit)" by (cases f)
  show ?case
  proof (cases "logger tr")
    case False
    with Cons.prems f show ?thesis by simp
  next
    case True
    show ?thesis
    proof (cases "get_gpu_stat flt smi pitem unit")
      case (Inl e)
      with Cons.prems f True show ?thesis by simp
    next
      case (Inr metrics)
      with Cons.prems f True
      have "call = (metrics, global_step tr) \<or> call \<in> set (snd (query_all flt smi tr fs))"
        by (simp split: prod.splits)
      then show ?thesis
      proof
        assume "call = (metrics, global_step tr)"
        with Inr f show ?thesis by auto
      next
        assume "call \<in> set (snd (query_all flt smi tr fs))"
        from Cons.IH [OF this] show ?thesis by auto
      qed
    qed
  qed
qed

lemma batches_named_query_all:
  assumes "\<not> prefix ''gpu_'' name"
  shows "batches_named name (snd (query_all flt smi tr fs)) = []"
proof -
  have "name \<notin> fst ` set (fst call)" if "call \<in> set (snd (query_all flt smi tr fs))" for call
  proof
    assume "name \<in> fst ` set (fst call)"
    moreover from query_all_calls [OF that] obtain pitem unit
      where "get_gpu_stat flt smi pitem unit = Inr (fst call)" by blast
    ultimately obtain i where "name = stat_name pitem unit i"
      using get_gpu_stat_keys(2) by blast
    with assms show False by (simp add: stat_name_def)
  qed
  then show ?thesis by (simp add: batches_named_def filter_empty_conv)
qed

subsection \<open>First step, silent configuration, preconditions, zero timestamps\<close>

lemma emitted_append [simp]: "emitted s (s'\<lparr>logged := logged s @ calls\<rparr>) = calls"
  by (simp add: emitted_def)

lemma start_after_reset:
  "emitted (on_train_epoch_start s)
     (snd (on_train_batch_start flt smi cfg tr (on_train_epoch_start s))) =
   snd (query_all flt smi tr (start_fields cfg))"
  by (simp add: on_train_batch_start_split and_then_def emit_def on_train_epoch_start_def
      log_elapsed_def if_set_def time_time_def emitted_def split: option.splits)

text \<open>
  Claim C5. Whatever the flags, the answers of the tool, the trainer and the state before
  it (the timestamps an earlier epoch has left included), the first
  \<^verbatim>\<open>on_train_batch_start\<close> after \<^verbatim>\<open>on_train_epoch_start\<close> makes no logger call with the key
  \<^verbatim>\<open>batch_time/inter_step (ms)\<close>, on the paths that raise as on the one that returns.
\<close>

theorem first_step_start_no_inter_step:
  "batches_named ''batch_time/inter_step (ms)''
     (emitted (on_train_epoch_start s)
        (snd (on_train_batch_start flt smi cfg tr (on_train_epoch_start s)))) = []"
  by (simp add: start_after_reset batches_named_query_all)

lemma hooks_all_off:
  assumes "\<not> memory_utilization cfg" "\<not> gpu_utilization cfg" "\<not> intra_step_time cfg"
    "\<not> inter_step_time cfg" "\<not> fan_speed cfg" "\<not> temperature cfg"
  shows "on_train_batch_start flt smi cfg tr s = (None, s)"
    and "on_train_batch_end flt smi cfg tr s = (None, s)"
  using assms
  by (simp_all add: on_train_batch_start_def on_train_batch_end_def and_then_def if_set_def
      log_elapsed_def)

lemma run_steps_all_off:
  assumes "\<not> memory_utilization cfg" "\<not> gpu_utilization cfg" "\<not> intra_step_time cfg"
    "\<not> inter_step_time cfg" "\<not> fan_speed cfg" "\<not> temperature cfg"
  shows "fst (run_steps flt cfg steps s) = None \<and> logged (snd (run_steps flt cfg steps s)) = logged s"
proof (induction steps arbitrary: s)
  case Nil
  show ?case by simp
next
  case (Cons step steps)
  obtain smi tr ticks smi' tr' ticks' where step: "step = ((smi, tr, ticks), (smi', tr', ticks'))"
    by (cases step) auto
  let ?s = "s\<lparr>clock := ticks'\<rparr>"
  have "run_steps flt cfg (step # steps) s = run_steps flt cfg steps ?s"
    by (simp add: step and_then_def call_start_def call_end_def with_clock_def hooks_all_off [OF assms])
  with Cons.IH [of ?s] show ?case by simp
qed

text \<open>
  Claim C6. With the six flags off, an epoch (\<^verbatim>\<open>on_train_epoch_start\<close>, then any number of
  steps, each a step-start and a step-end call, whatever the tool, the trainer and the
  clock are at each call) ends without an exception and the logger has received no call.
\<close>

theorem all_flags_off_no_emission:
  assumes "\<not> memory_utilization cfg" and "\<not> gpu_utilization cfg" and "\<not> intra_step_time cfg"
    and "\<not> inter_step_time cfg" and "\<not> fan_speed cfg" and "\<not> temperature cfg"
  shows "fst (run_epoch flt cfg steps s) = None \<and>
         logged (snd (run_epoch flt cfg steps s)) = logged s"
  using run_steps_all_off [OF assms, of flt steps "on_train_epoch_start s"]
  by (simp add: run_epoch_def on_train_epoch_start_def)

text \<open>An epoch of two steps with every flag off.\<close>

theorem all_flags_off_no_emission_witness:
  "fst (run_epoch float_of_digits all_off
          [((\<lambda>_. NotStarted, trainer_at 0, \<lambda>_. 1), (\<lambda>_. NotStarted, trainer_at 0, \<lambda>_. 2)),
           ((\<lambda>_. NotStarted, trainer_at 1, \<lambda>_. 3), (\<lambda>_. NotStarted, trainer_at 1, \<lambda>_. 4))] fresh) = None \<and>
   logged (snd (run_epoch float_of_digits all_off
          [((\<lambda>_. NotStarted, trainer_at 0, \<lambda>_. 1), (\<lambda>_. NotStarted, trainer_at 0, \<lambda>_. 2)),
           ((\<lambda>_. NotStarted, trainer_at 1, \<lambda>_. 3), (\<lambda>_. NotStarted, trainer_at 1, \<lambda>_. 4))] fresh)) = []"
  using all_flags_off_no_emission [of all_off float_of_digits
          "[((\<lambda>_. NotStarted, trainer_at 0, \<lambda>_. 1), (\<lambda>_. NotStarted, trainer_at 0, \<lambda>_. 2)),
           ((\<lambda>_. NotStarted, trainer_at 1, \<lambda>_. 3), (\<lambda>_. NotStarted, trainer_at 1, \<lambda>_. 4))]" fresh]
  by (simp add: input_defs)

text \<open>
  Claim C8. Without the tool \<^verbatim>\<open>__init__\<close> raises \<^verbatim>\<open>MisconfigurationException\<close>; without a
  logger \<^verbatim>\<open>on_train_start\<close> raises it. In both cases the run of the host ends with that
  exception in the state it started from: no step hook has run and nothing was logged.
  Both tests are made once, before the first epoch.
\<close>

theorem configuration_errors:
  assumes "which = None \<or> \<not> logger tr"
  shows "(which = None \<longrightarrow> (\<exists>msg. init which flags = Inl (MisconfigurationException msg))) \<and>
         (\<not> logger tr \<longrightarrow> (\<exists>msg. on_train_start tr = Inl (MisconfigurationException msg))) \<and>
         (\<exists>msg. fit flt which flags tr epochs s = (Some (MisconfigurationException msg), s))"
  using assms by (auto simp: fit_def init_def on_train_start_def)

text \<open>A run without the tool, and a run with the tool and without a logger.\<close>

theorem configuration_errors_witness:
  "(\<exists>msg. fit float_of_digits None memory_only (trainer_at 0)
            [[((\<lambda>_. Exited 0 ''10'', trainer_at 0, \<lambda>_. 1), (\<lambda>_. Exited 0 ''10'', trainer_at 0, \<lambda>_. 2))]] fresh
      = (Some (MisconfigurationException msg), fresh)) \<and>
   (\<exists>msg. fit float_of_digits (Some ''/usr/bin/nvidia-smi'') memory_only ((trainer_at 0)\<lparr>logger := False\<rparr>)
            [[((\<lambda>_. Exited 0 ''10'', trainer_at 0, \<lambda>_. 1), (\<lambda>_. Exited 0 ''10'', trainer_at 0, \<lambda>_. 2))]] fresh
      = (Some (MisconfigurationException msg), fresh))"
  using configuration_errors [of None "trainer_at 0" memory_only float_of_digits
      "[[((\<lambda>_. Exited 0 ''10'', trainer_at 0, \<lambda>_. 1), (\<lambda>_. Exited 0 ''10'', trainer_at 0, \<lambda>_. 2))]]" fresh]
    configuration_errors [of "Some ''/usr/bin/nvidia-smi''" "(trainer_at 0)\<lparr>logger := False\<rparr>" memory_only float_of_digits
      "[[((\<lambda>_. Exited 0 ''10'', trainer_at 0, \<lambda>_. 1), (\<lambda>_. Exited 0 ''10'', trainer_at 0, \<lambda>_. 2))]]" fresh]
  by (simp add: input_defs)

text \<open>
  Claim C9. The tests \<^verbatim>\<open>flag and self.snap\<close> go by truthiness. With the recorded step-end
  timestamp equal to 0, \<^verbatim>\<open>on_train_batch_start\<close> does exactly what it does with \<^verbatim>\<open>None\<close>
  there (same exception or none, same logger calls, same state but for the attribute
  itself) and logs no inter-step metric; likewise \<^verbatim>\<open>on_train_batch_end\<close> with a recorded
  step-start timestamp equal to 0, which logs no intra-step metric.
\<close>

theorem zero_timestamp_is_absent:
  "on_train_batch_start flt smi cfg tr (s\<lparr>snap_inter_step_time := Stamp 0\<rparr>) =
     apsnd (snap_inter_step_time_update (\<lambda>_. Stamp 0))
       (on_train_batch_start flt smi cfg tr (s\<lparr>snap_inter_step_time := PyNone\<rparr>)) \<and>
   batches_named ''batch_time/inter_step (ms)''
     (emitted s (snd (on_train_batch_start flt smi cfg tr (s\<lparr>snap_inter_step_time := Stamp 0\<rparr>)))) = [] \<and>
   on_train_batch_end flt smi cfg tr (s\<lparr>snap_intra_step_time := Stamp 0\<rparr>) =
     apsnd (snap_intra_step_time_update (\<lambda>_. Stamp 0))
       (on_train_batch_end flt smi cfg tr (s\<lparr>snap_intra_step_time := PyNone\<rparr>)) \<and>
   batches_named ''batch_time/intra_step (ms)''
     (emitted s (snd (on_train_batch_end flt smi cfg tr (s\<lparr>snap_intra_step_time := Stamp 0\<rparr>)))) = []"
proof (intro conjI)
  show "on_train_batch_start flt smi cfg tr (s\<lparr>snap_inter_step_time := Stamp 0\<rparr>) =
     apsnd (snap_inter_step_time_update (\<lambda>_. Stamp 0))
       (on_train_batch_start flt smi cfg tr (s\<lparr>snap_inter_step_time := PyNone\<rparr>))"
    by (simp add: on_train_batch_start_split and_then_def emit_def log_elapsed_def if_set_def
        time_time_def split: option.splits)
  show "on_train_batch_end flt smi cfg tr (s\<lparr>snap_intra_step_time := Stamp 0\<rparr>) =
     apsnd (snap_intra_step_time_update (\<lambda>_. Stamp 0))
       (on_train_batch_end flt smi cfg tr (s\<lparr>snap_intra_step_time := PyNone\<rparr>))"
    by (simp add: on_train_batch_end_split and_then_def emit_def log_elapsed_def if_set_def
        time_time_def split: option.splits)
  have "emitted s (snd (on_train_batch_start flt smi cfg tr (s\<lparr>snap_inter_step_time := Stamp 0\<rparr>)))
          = snd (query_all flt smi tr (start_fields cfg))"
    by (simp add: on_train_batch_start_split and_then_def emit_def log_elapsed_def if_set_def
        time_time_def emitted_def split: option.splits)
  then show "batches_named ''batch_time/inter_step (ms)''
     (emitted s (snd (on_train_batch_start flt smi cfg tr (s\<lparr>snap_inter_step_time := Stamp 0\<rparr>)))) = []"
    by (simp add: batches_named_query_all)
  have "emitted s (snd (on_train_batch_end flt smi cfg tr (s\<lparr>snap_intra_step_time := Stamp 0\<rparr>)))
          = snd (query_all flt smi tr (end_fields cfg))"
    by (simp add: on_train_batch_end_split and_then_def emit_def log_elapsed_def if_set_def
        time_time_def emitted_def split: option.splits)
  then show "batches_named ''batch_time/intra_step (ms)''
     (emitted s (snd (on_train_batch_end flt smi cfg tr (s\<lparr>snap_intra_step_time := Stamp 0\<rparr>)))) = []"
    by (simp add: batches_named_query_all)
qed

subsection \<open>The hooks when they return\<close>

lemma start_ok:
  assumes "on_train_batch_start flt smi cfg tr s = (None, s')"
  shows "fst (query_all flt smi tr (start_fields cfg)) = None"
    and "logged s' = logged s @ snd (query_all flt smi tr (start_fields cfg)) @
           elapsed_calls tr ''batch_time/inter_step (ms)'' (inter_step_time cfg)
             (snap_inter_step_time s) (clock s 0)"
    and "snap_inter_step_time s' = snap_inter_step_time s"
    and "snap_intra_step_time s' =
           (if intra_step_time cfg
            then Stamp (clock s (length (elapsed_calls tr ''batch_time/inter_step (ms)''
                   (inter_step_time cfg) (snap_inter_step_time s) (clock s 0))))
            else snap_intra_step_time s)"
  using assms
  by (auto simp: on_train_batch_start_split and_then_def emit_def log_elapsed_def if_set_def
      time_time_def log_metrics_def elapsed_calls_def
      split: option.splits slot.splits if_splits prod.splits)

lemma end_ok:
  assumes "on_train_batch_end flt smi cfg tr s = (None, s')"
  shows "fst (query_all flt smi tr (end_fields cfg)) = None"
    and "logged s' = logged s @ snd (query_all flt smi tr (end_fields cfg)) @
           elapsed_calls tr ''batch_time/intra_step (ms)'' (intra_step_time cfg)
             (snap_intra_step_time s) (clock s (if inter_step_time cfg then 1 else 0))"
    and "snap_intra_step_time s' = snap_intra_step_time s"
    and "snap_inter_step_time s' =
           (if inter_step_time cfg then Stamp (clock s 0) else snap_inter_step_time s)"
  using assms
  by (auto simp: on_train_batch_end_split and_then_def emit_def log_elapsed_def if_set_def
      time_time_def log_metrics_def elapsed_calls_def
      split: option.splits slot.splits if_splits prod.splits)

lemma end_keeps_snap_intra:
  "snap_intra_step_time (snd (on_train_batch_end flt smi cfg tr s)) = snap_intra_step_time s"
  by (simp add: on_train_batch_end_split and_then_def emit_def log_elapsed_def if_set_def
      time_time_def log_metrics_def split: option.splits slot.splits prod.splits)

subsection \<open>Two steps\<close>

lemma batches_named_append:
  "batches_named name (xs @ ys) = batches_named name xs @ batches_named name ys"
  by (simp add: batches_named_def)

lemma batches_named_Cons:
  "batches_named name (call # calls) =
     (if name \<in> fst ` set (fst call) then call # batches_named name calls
      else batches_named name calls)"
  by (simp add: batches_named_def)

lemma batches_named_Nil: "batches_named name [] = []"
  by (simp add: batches_named_def)

lemma start_at:
  assumes "at_time now (on_train_batch_start flt smi cfg tr) s = (None, s')"
  shows "logged s' = logged s @ snd (query_all flt smi tr (start_fields cfg)) @
           elapsed_calls tr ''batch_time/inter_step (ms)'' (inter_step_time cfg)
             (snap_inter_step_time s) now"
    and "snap_inter_step_time s' = snap_inter_step_time s"
    and "snap_intra_step_time s' = (if intra_step_time cfg then Stamp now else snap_intra_step_time s)"
  using start_ok [of flt smi cfg tr "s\<lparr>clock := \<lambda>_. now\<rparr>" s'] assms
  by (simp_all add: at_time_def with_clock_def)

lemma end_at:
  assumes "at_time now (on_train_batch_end flt smi cfg tr) s = (None, s')"
  shows "logged s' = logged s @ snd (query_all flt smi tr (end_fields cfg)) @
           elapsed_calls tr ''batch_time/intra_step (ms)'' (intra_step_time cfg)
             (snap_intra_step_time s) now"
    and "snap_intra_step_time s' = snap_intra_step_time s"
    and "snap_inter_step_time s' = (if inter_step_time cfg then Stamp now else snap_inter_step_time s)"
  using end_ok [of flt smi cfg tr "s\<lparr>clock := \<lambda>_. now\<rparr>" s'] assms
  by (simp_all add: at_time_def with_clock_def)

text \<open>
  Claim C4, as amended. Intra-step and inter-step timing are on and the four calls
  \<^verbatim>\<open>on_step_start(t0)\<close>, \<^verbatim>\<open>on_step_end(t1)\<close>, \<^verbatim>\<open>on_step_start(t2)\<close>, \<^verbatim>\<open>on_step_end(t3)\<close>
  after the epoch-start reset return without raising. Then, for timestamps \<open>t0\<close>, \<open>t1\<close>,
  \<open>t2\<close> other than 0, the logger calls with the key \<^verbatim>\<open>batch_time/intra_step (ms)\<close> are
  two, with the values \<open>(t1 - t0) * 1000\<close> and \<open>(t3 - t2) * 1000\<close>; there is one call with
  the key \<^verbatim>\<open>batch_time/inter_step (ms)\<close>, with the value \<open>(t2 - t1) * 1000\<close>, and it is made
  during the second step-start. The statement says nothing of a timestamp equal to 0.
  The order of the timestamps plays no part.
\<close>

theorem two_steps_timing:
  assumes intra: "intra_step_time cfg" and inter: "inter_step_time cfg"
    and nz: "t0 \<noteq> 0" "t1 \<noteq> 0" "t2 \<noteq> 0"
    and h1: "at_time t0 (on_train_batch_start flt smi1 cfg tr1) (on_train_epoch_start s) = (None, s1)"
    and h2: "at_time t1 (on_train_batch_end flt smi2 cfg tr2) s1 = (None, s2)"
    and h3: "at_time t2 (on_train_batch_start flt smi3 cfg tr3) s2 = (None, s3)"
    and h4: "at_time t3 (on_train_batch_end flt smi4 cfg tr4) s3 = (None, s4)"
  shows "batches_named ''batch_time/intra_step (ms)'' (emitted s s4) =
           [([(''batch_time/intra_step (ms)'', (t1 - t0) * 1000)], global_step tr2),
            ([(''batch_time/intra_step (ms)'', (t3 - t2) * 1000)], global_step tr4)] \<and>
         batches_named ''batch_time/inter_step (ms)'' (emitted s s4) =
           [([(''batch_time/inter_step (ms)'', (t2 - t1) * 1000)], global_step tr3)] \<and>
         batches_named ''batch_time/inter_step (ms)'' (emitted s2 s3) =
           [([(''batch_time/inter_step (ms)'', (t2 - t1) * 1000)], global_step tr3)]"
proof -
  let ?s0 = "on_train_epoch_start s"
  have s0: "logged ?s0 = logged s" "snap_intra_step_time ?s0 = PyNone" "snap_inter_step_time ?s0 = PyNone"
    by (simp_all add: on_train_epoch_start_def)
  note a1 = start_at [OF h1] and a2 = end_at [OF h2] and a3 = start_at [OF h3] and a4 = end_at [OF h4]
  have e1: "logged s1 = logged s @ snd (query_all flt smi1 tr1 (start_fields cfg))"
    and i1: "snap_intra_step_time s1 = Stamp t0" and j1: "snap_inter_step_time s1 = PyNone"
    using a1 s0 intra by (simp_all add: elapsed_calls_def)
  have e2: "logged s2 = logged s1 @ snd (query_all flt smi2 tr2 (end_fields cfg)) @
              [([(''batch_time/intra_step (ms)'', (t1 - t0) * 1000)], global_step tr2)]"
    and i2: "snap_intra_step_time s2 = Stamp t0" and j2: "snap_inter_step_time s2 = Stamp t1"
    using a2 i1 j1 intra inter nz by (simp_all add: elapsed_calls_def)
  have e3: "logged s3 = logged s2 @ snd (query_all flt smi3 tr3 (start_fields cfg)) @
              [([(''batch_time/inter_step (ms)'', (t2 - t1) * 1000)], global_step tr3)]"
    and i3: "snap_intra_step_time s3 = Stamp t2" and j3: "snap_inter_step_time s3 = Stamp t1"
    using a3 i2 j2 intra inter nz by (simp_all add: elapsed_calls_def)
  have e4: "logged s4 = logged s3 @ snd (query_all flt smi4 tr4 (end_fields cfg)) @
              [([(''batch_time/intra_step (ms)'', (t3 - t2) * 1000)], global_step tr4)]"
    using a4 i3 j3 intra inter nz by (simp_all add: elapsed_calls_def)
  have all: "emitted s s4 =
      snd (query_all flt smi1 tr1 (start_fields cfg)) @
      snd (query_all flt smi2 tr2 (end_fields cfg)) @
        [([(''batch_time/intra_step (ms)'', (t1 - t0) * 1000)], global_step tr2)] @
      snd (query_all flt smi3 tr3 (start_fields cfg)) @
        [([(''batch_time/inter_step (ms)'', (t2 - t1) * 1000)], global_step tr3)] @
      snd (query_all flt smi4 tr4 (end_fields cfg)) @
        [([(''batch_time/intra_step (ms)'', (t3 - t2) * 1000)], global_step tr4)]"
    by (simp add: emitted_def e1 e2 e3 e4)
  have third: "emitted s2 s3 = snd (query_all flt smi3 tr3 (start_fields cfg)) @
        [([(''batch_time/inter_step (ms)'', (t2 - t1) * 1000)], global_step tr3)]"
    by (simp add: emitted_def e3)
  show ?thesis
    unfolding all third
    by (simp add: batches_named_append batches_named_Cons batches_named_Nil batches_named_query_all)
qed

text \<open>
  The claim as stated fails when a device query fails. Here the GPU utilisation is
  sampled too, the timestamps are 1, 2, 3, 4, and from the second step on the tool exits
  with status 1: the second step-start and the second step-end raise
  \<^verbatim>\<open>CalledProcessError\<close> before their timing code, so that one intra-step metric and no
  inter-step metric are logged.
\<close>

theorem two_steps_timing_counterexample:
  "(let good = (\<lambda>_. Exited 0 ''10'');
        bad = (\<lambda>_. Exited 1 []);
        cfg = timing_only\<lparr>gpu_utilization := True\<rparr>;
        r1 = at_time 1 (on_train_batch_start float_of_digits good cfg (trainer_at 0))
               (on_train_epoch_start fresh);
        r2 = at_time 2 (on_train_batch_end float_of_digits good cfg (trainer_at 0)) (snd r1);
        r3 = at_time 3 (on_train_batch_start float_of_digits bad cfg (trainer_at 1)) (snd r2);
        r4 = at_time 4 (on_train_batch_end float_of_digits bad cfg (trainer_at 1)) (snd r3)
    in fst r3 = Some (CalledProcessError 1) \<and> fst r4 = Some (CalledProcessError 1) \<and>
       batches_named ''batch_time/intra_step (ms)'' (logged (snd r4)) =
         [([(''batch_time/intra_step (ms)'', (2 - 1) * 1000)], 0)] \<and>
       batches_named ''batch_time/inter_step (ms)'' (logged (snd r4)) = [])"
proof -
  define good :: "string \<Rightarrow> run_result" where "good = (\<lambda>_. Exited 0 ''10'')"
  define bad :: "string \<Rightarrow> run_result" where "bad = (\<lambda>_. Exited 1 [])"
  define cfg where "cfg = timing_only\<lparr>gpu_utilization := True\<rparr>"
  define r1 where "r1 = at_time 1 (on_train_batch_start float_of_digits good cfg (trainer_at 0))
               (on_train_epoch_start fresh)"
  define r2 where "r2 = at_time 2 (on_train_batch_end float_of_digits good cfg (trainer_at 0)) (snd r1)"
  define r3 where "r3 = at_time 3 (on_train_batch_start float_of_digits bad cfg (trainer_at 1)) (snd r2)"
  define r4 where "r4 = at_time 4 (on_train_batch_end float_of_digits bad cfg (trainer_at 1)) (snd r3)"
  have g: "get_gpu_stat float_of_digits good ''utilization.gpu'' ''%'' =
             Inr [(''gpu_utilization.gpu/gpu_id_0 (%)'', 10 :: real)]"
    by (simp add: good_def stat_defs)
  have b: "get_gpu_stat float_of_digits bad ''utilization.gpu'' ''%'' =
             (Inl (CalledProcessError 1) :: error + real metrics)"
    by (simp add: bad_def get_gpu_stat_def)
  have flags: "gpu_utilization cfg" "\<not> memory_utilization cfg" "intra_step_time cfg"
    "inter_step_time cfg" "\<not> fan_speed cfg" "\<not> temperature cfg"
    by (simp_all add: cfg_def timing_only_def all_off_def)
  have tr: "logger (trainer_at n)" "global_step (trainer_at n) = n" for n
    by (simp_all add: trainer_at_def)
  have a1: "snap_intra_step_time (snd r1) = Stamp 1" "snap_inter_step_time (snd r1) = PyNone"
    "logged (snd r1) = [([(''gpu_utilization.gpu/gpu_id_0 (%)'', 10)], 0)]"
    by (simp_all add: r1_def hook_defs fresh_def flags tr g)
  have a2: "snap_intra_step_time (snd r2) = Stamp 1" "snap_inter_step_time (snd r2) = Stamp 2"
    "logged (snd r2) = [([(''gpu_utilization.gpu/gpu_id_0 (%)'', 10)], 0),
                        ([(''gpu_utilization.gpu/gpu_id_0 (%)'', 10)], 0),
                        ([(''batch_time/intra_step (ms)'', (2 - 1) * 1000)], 0)]"
    by (simp_all add: r2_def hook_defs flags tr g a1)
  have a3: "fst r3 = Some (CalledProcessError 1)" "logged (snd r3) = logged (snd r2)"
    by (simp_all add: r3_def hook_defs flags tr b)
  have a4: "fst r4 = Some (CalledProcessError 1)" "logged (snd r4) = logged (snd r3)"
    by (simp_all add: r4_def hook_defs flags tr b)
  have "fst r3 = Some (CalledProcessError 1) \<and> fst r4 = Some (CalledProcessError 1) \<and>
       batches_named ''batch_time/intra_step (ms)'' (logged (snd r4)) =
         [([(''batch_time/intra_step (ms)'', (2 - 1) * 1000)], 0)] \<and>
       batches_named ''batch_time/inter_step (ms)'' (logged (snd r4)) = []"
    by (simp add: a3 a4 a2 batches_named_def)
  then show ?thesis
    unfolding Let_def r4_def r3_def r2_def r1_def cfg_def good_def bad_def .
qed

text \<open>
  With \<open>t0 = 0\<close> the four calls return and the intra-step metric of the first step is
  missing: the test \<^verbatim>\<open>flag and self.snap\<close> takes the timestamp 0 for an absent one, where
  the docstring promises the time of each step.
\<close>

lemma two_steps_zero_timestamp:
  "fst (run_epoch float_of_digits timing_only
          [((\<lambda>_. NotStarted, trainer_at 0, \<lambda>_. 0), (\<lambda>_. NotStarted, trainer_at 0, \<lambda>_. 1)),
           ((\<lambda>_. NotStarted, trainer_at 1, \<lambda>_. 2), (\<lambda>_. NotStarted, trainer_at 1, \<lambda>_. 3))] fresh) = None \<and>
   batches_named ''batch_time/intra_step (ms)''
     (logged (snd (run_epoch float_of_digits timing_only
          [((\<lambda>_. NotStarted, trainer_at 0, \<lambda>_. 0), (\<lambda>_. NotStarted, trainer_at 0, \<lambda>_. 1)),
           ((\<lambda>_. NotStarted, trainer_at 1, \<lambda>_. 2), (\<lambda>_. NotStarted, trainer_at 1, \<lambda>_. 3))] fresh)))
     = [([(''batch_time/intra_step (ms)'', (3 - 2) * 1000)], 1)]"
  by (simp add: hook_defs input_defs batches_named_def)

text \<open>Two steps at the times 1, 2, 3, 4, with the GPU utilisation sampled as well.\<close>

theorem two_steps_timing_witness:
  "(let smi = (\<lambda>_. Exited 0 ''10'');
        cfg = timing_only\<lparr>gpu_utilization := True\<rparr>;
        s1 = snd (at_time 1 (on_train_batch_start float_of_digits smi cfg (trainer_at 0))
                    (on_train_epoch_start fresh));
        s2 = snd (at_time 2 (on_train_batch_end float_of_digits smi cfg (trainer_at 0)) s1);
        s3 = snd (at_time 3 (on_train_batch_start float_of_digits smi cfg (trainer_at 1)) s2);
        s4 = snd (at_time 4 (on_train_batch_end float_of_digits smi cfg (trainer_at 1)) s3)
    in batches_named ''batch_time/intra_step (ms)'' (emitted fresh s4) =
         [([(''batch_time/intra_step (ms)'', (2 - 1) * 1000)], 0),
          ([(''batch_time/intra_step (ms)'', (4 - 3) * 1000)], 1)] \<and>
       batches_named ''batch_time/inter_step (ms)'' (emitted fresh s4) =
         [([(''batch_time/inter_step (ms)'', (3 - 2) * 1000)], 1)] \<and>
       batches_named ''batch_time/inter_step (ms)'' (emitted s2 s3) =
         [([(''batch_time/inter_step (ms)'', (3 - 2) * 1000)], 1)])"
proof -
  define smi :: "string \<Rightarrow> run_result" where "smi = (\<lambda>_. Exited 0 ''10'')"
  define cfg where "cfg = timing_only\<lparr>gpu_utilization := True\<rparr>"
  define r1 where "r1 = at_time 1 (on_train_batch_start float_of_digits smi cfg (trainer_at 0))
                    (on_train_epoch_start fresh)"
  define r2 where "r2 = at_time 2 (on_train_batch_end float_of_digits smi cfg (trainer_at 0)) (snd r1)"
  define r3 where "r3 = at_time 3 (on_train_batch_start float_of_digits smi cfg (trainer_at 1)) (snd r2)"
  define r4 where "r4 = at_time 4 (on_train_batch_end float_of_digits smi cfg (trainer_at 1)) (snd r3)"
  have q: "get_gpu_stat float_of_digits smi ''utilization.gpu'' ''%'' =
             Inr [(''gpu_utilization.gpu/gpu_id_0 (%)'', 10 :: real)]"
    by (simp add: smi_def stat_defs)
  have f1: "fst r1 = None"
    by (simp add: r1_def cfg_def hook_defs input_defs q)
  have f2: "fst r2 = None"
    by (simp add: r2_def r1_def cfg_def hook_defs input_defs q)
  have f3: "fst r3 = None"
    by (simp add: r3_def r2_def r1_def cfg_def hook_defs input_defs q)
  have f4: "fst r4 = None"
    by (simp add: r4_def r3_def r2_def r1_def cfg_def hook_defs input_defs q)
  have flags: "intra_step_time cfg" "inter_step_time cfg"
    by (simp_all add: cfg_def input_defs)
  have h1: "at_time 1 (on_train_batch_start float_of_digits smi cfg (trainer_at 0))
              (on_train_epoch_start fresh) = (None, snd r1)"
    using f1 by (simp add: prod_eq_iff r1_def)
  have h2: "at_time 2 (on_train_batch_end float_of_digits smi cfg (trainer_at 0)) (snd r1)
              = (None, snd r2)"
    using f2 by (simp add: prod_eq_iff r2_def)
  have h3: "at_time 3 (on_train_batch_start float_of_digits smi cfg (trainer_at 1)) (snd r2)
              = (None, snd r3)"
    using f3 by (simp add: prod_eq_iff r3_def)
  have h4: "at_time 4 (on_train_batch_end float_of_digits smi cfg (trainer_at 1)) (snd r3)
              = (None, snd r4)"
    using f4 by (simp add: prod_eq_iff r4_def)
  have steps: "global_step (trainer_at 0) = 0" "global_step (trainer_at 1) = 1"
    by (simp_all add: trainer_at_def)
  from two_steps_timing [OF flags _ _ _ h1 h2 h3 h4]
  show ?thesis
    unfolding Let_def steps r4_def r3_def r2_def r1_def smi_def cfg_def by simp
qed

subsection \<open>The memory composite\<close>

lemma query_all_append_ok:
  assumes "fst (query_all flt smi tr (xs @ ys)) = None"
  shows "fst (query_all flt smi tr xs) = None" and "fst (query_all flt smi tr ys) = None"
    and "snd (query_all flt smi tr (xs @ ys)) = snd (query_all flt smi tr xs) @ snd (query_all flt smi tr ys)"
  using assms by (auto simp: query_all_append split: prod.splits option.splits)

lemma query_all_memory_ok:
  assumes "fst (query_all flt smi tr
             [(''memory.used'', ''MB''), (''memory.free'', ''MB''), (''utilization.memory'', ''%'')]) = None"
  shows "\<exists>used free umem.
           get_gpu_stat flt smi ''memory.used'' ''MB'' = Inr used \<and>
           get_gpu_stat flt smi ''memory.free'' ''MB'' = Inr free \<and>
           get_gpu_stat flt smi ''utilization.memory'' ''%'' = Inr umem \<and>
           snd (query_all flt smi tr
             [(''memory.used'', ''MB''), (''memory.free'', ''MB''), (''utilization.memory'', ''%'')]) =
             [(used, global_step tr), (free, global_step tr), (umem, global_step tr)]"
  using assms by (auto split: if_splits sum.splits)

lemma other_fields_not_memory:
  assumes "set fs \<subseteq> {(''utilization.gpu'', ''%''), (''fan.speed'', ''%''),
                      (''temperature.gpu'', ''degrees C''), (''temperature.memory'', ''degrees C'')}"
  shows "\<not> list_ex memory_batch (snd (query_all flt smi tr fs))"
proof -
  have "\<not> memory_batch call" if "call \<in> set (snd (query_all flt smi tr fs))" for call
  proof -
    from query_all_calls [OF that] obtain pitem unit
      where f: "(pitem, unit) \<in> set fs" and d: "get_gpu_stat flt smi pitem unit = Inr (fst call)"
      by blast
    have "\<not> memory_key k" if "k \<in> fst ` set (fst call)" for k
    proof -
      from get_gpu_stat_keys(2) [OF d that] obtain i where "k = stat_name pitem unit i" ..
      moreover from f assms have "pitem \<in> {''utilization.gpu'', ''fan.speed'', ''temperature.gpu'',
          ''temperature.memory''}" by auto
      ultimately show ?thesis by (auto simp: memory_key_def stat_name_def)
    qed
    then show ?thesis by (auto simp: memory_batch_def list_ex_iff)
  qed
  then show ?thesis by (auto simp: list_ex_iff)
qed

lemma elapsed_not_memory:
  "\<not> list_ex memory_batch (elapsed_calls tr ''batch_time/inter_step (ms)'' flag snap now)"
  "\<not> list_ex memory_batch (elapsed_calls tr ''batch_time/intra_step (ms)'' flag snap now)"
  by (simp_all add: elapsed_calls_def memory_batch_def memory_key_def split: slot.splits)

text \<open>
  Claim C7, as amended. Memory sampling is on and the step hook (step-start or step-end)
  returns without raising. Then its logger calls contain, next to each other and in this
  order, the three mappings that \<^verbatim>\<open>_get_gpu_stat\<close> returns for \<^verbatim>\<open>memory.used\<close>,
  \<^verbatim>\<open>memory.free\<close> and \<^verbatim>\<open>utilization.memory\<close>, each with the trainer's current step, and
  no other call of the hook carries a memory reading.
\<close>

theorem memory_composite_three_calls:
  assumes mem: "memory_utilization cfg"
    and ok: "on_train_batch_start flt smi cfg tr s = (None, s') \<or>
             on_train_batch_end flt smi cfg tr s = (None, s')"
  shows "\<exists>used free umem before after.
           get_gpu_stat flt smi ''memory.used'' ''MB'' = Inr used \<and>
           get_gpu_stat flt smi ''memory.free'' ''MB'' = Inr free \<and>
           get_gpu_stat flt smi ''utilization.memory'' ''%'' = Inr umem \<and>
           emitted s s' =
             before @ [(used, global_step tr), (free, global_step tr), (umem, global_step tr)] @ after \<and>
           \<not> list_ex memory_batch before \<and> \<not> list_ex memory_batch after"
proof -
  let ?U = "if gpu_utilization cfg then [(''utilization.gpu'', ''%'')] else []"
  let ?M = "[(''memory.used'', ''MB''), (''memory.free'', ''MB''), (''utilization.memory'', ''%'')]"
  let ?R = "(if fan_speed cfg then [(''fan.speed'', ''%'')] else []) @
            (if temperature cfg
             then [(''temperature.gpu'', ''degrees C''), (''temperature.memory'', ''degrees C'')]
             else [])"
  have sf: "start_fields cfg = ?U @ ?M" and ef: "end_fields cfg = ?U @ ?M @ ?R"
    using mem by (simp_all add: start_fields_def end_fields_def)
  have U: "\<not> list_ex memory_batch (snd (query_all flt smi tr ?U))"
    by (rule other_fields_not_memory) auto
  have R: "\<not> list_ex memory_batch (snd (query_all flt smi tr ?R))"
    by (rule other_fields_not_memory) auto
  from ok show ?thesis
  proof
    assume h: "on_train_batch_start flt smi cfg tr s = (None, s')"
    from start_ok(1) [OF h] have q: "fst (query_all flt smi tr (?U @ ?M)) = None"
      by (simp only: sf)
    from query_all_memory_ok [OF query_all_append_ok(2) [OF q]]
    obtain used free umem where g: "get_gpu_stat flt smi ''memory.used'' ''MB'' = Inr used"
      "get_gpu_stat flt smi ''memory.free'' ''MB'' = Inr free"
      "get_gpu_stat flt smi ''utilization.memory'' ''%'' = Inr umem"
      and m: "snd (query_all flt smi tr ?M) =
        [(used, global_step tr), (free, global_step tr), (umem, global_step tr)]"
      by blast
    let ?T = "elapsed_calls tr ''batch_time/inter_step (ms)'' (inter_step_time cfg)
                (snap_inter_step_time s) (clock s 0)"
    have "emitted s s' = snd (query_all flt smi tr ?U) @
            [(used, global_step tr), (free, global_step tr), (umem, global_step tr)] @ ?T"
      using start_ok(2) [OF h] query_all_append_ok(3) [OF q] m
      by (simp add: emitted_def sf)
    with g U elapsed_not_memory(1) show ?thesis by blast
  next
    assume h: "on_train_batch_end flt smi cfg tr s = (None, s')"
    from end_ok(1) [OF h] have q: "fst (query_all flt smi tr (?U @ ?M @ ?R)) = None"
      by (simp only: ef)
    note q' = query_all_append_ok(2) [OF q]
    from query_all_memory_ok [OF query_all_append_ok(1) [OF q']]
    obtain used free umem where g: "get_gpu_stat flt smi ''memory.used'' ''MB'' = Inr used"
      "get_gpu_stat flt smi ''memory.free'' ''MB'' = Inr free"
      "get_gpu_stat flt smi ''utilization.memory'' ''%'' = Inr umem"
      and m: "snd (query_all flt smi tr ?M) =
        [(used, global_step tr), (free, global_step tr), (umem, global_step tr)]"
      by blast
    let ?T = "elapsed_calls tr ''batch_time/intra_step (ms)'' (intra_step_time cfg)
                (snap_intra_step_time s) (clock s (if inter_step_time cfg then 1 else 0))"
    have "emitted s s' = snd (query_all flt smi tr ?U) @
            [(used, global_step tr), (free, global_step tr), (umem, global_step tr)] @
            (snd (query_all flt smi tr ?R) @ ?T)"
      using end_ok(2) [OF h] query_all_append_ok(3) [OF q] query_all_append_ok(3) [OF q'] m
      by (simp add: emitted_def ef)
    moreover have "\<not> list_ex memory_batch (snd (query_all flt smi tr ?R) @ ?T)"
      unfolding list_ex_append using R elapsed_not_memory(2) by blast
    ultimately show ?thesis using g U by blast
  qed
qed

text \<open>
  The claim as stated fails when a query fails. Here the query for \<^verbatim>\<open>memory.free\<close> exits
  with status 1: the step-start hook logs the mapping of \<^verbatim>\<open>memory.used\<close> alone and raises
  \<^verbatim>\<open>CalledProcessError\<close>.
\<close>

theorem memory_composite_three_calls_counterexample:
  "memory_utilization memory_only \<and>
   on_train_batch_start float_of_digits
     (\<lambda>pitem. if pitem = ''memory.free'' then Exited 1 [] else Exited 0 ''10'')
     memory_only (trainer_at 0) fresh =
   (Some (CalledProcessError 1),
    fresh\<lparr>logged := [([(''gpu_memory.used/gpu_id_0 (MB)'', 10)], 0)]\<rparr>)"
  by (simp add: hook_defs input_defs stat_defs)

text \<open>A step-end call with memory and fan speed sampled, at step 7.\<close>

theorem memory_composite_three_calls_witness:
  "emitted fresh (snd (on_train_batch_end float_of_digits (\<lambda>_. Exited 0 ''10'')
                         (memory_only\<lparr>fan_speed := True\<rparr>) (trainer_at 7) fresh)) =
     [([(''gpu_memory.used/gpu_id_0 (MB)'', 10)], 7),
      ([(''gpu_memory.free/gpu_id_0 (MB)'', 10)], 7),
      ([(''gpu_utilization.memory/gpu_id_0 (%)'', 10)], 7),
      ([(''gpu_fan.speed/gpu_id_0 (%)'', 10)], 7)]"
proof -
  define smi :: "string \<Rightarrow> run_result" where "smi = (\<lambda>_. Exited 0 ''10'')"
  define cfg where "cfg = memory_only\<lparr>fan_speed := True\<rparr>"
  define r where "r = on_train_batch_end float_of_digits smi cfg (trainer_at 7) fresh"
  have q: "get_gpu_stat float_of_digits smi ''memory.used'' ''MB'' =
             Inr [(''gpu_memory.used/gpu_id_0 (MB)'', 10 :: real)]"
    "get_gpu_stat float_of_digits smi ''memory.free'' ''MB'' =
             Inr [(''gpu_memory.free/gpu_id_0 (MB)'', 10 :: real)]"
    "get_gpu_stat float_of_digits smi ''utilization.memory'' ''%'' =
             Inr [(''gpu_utilization.memory/gpu_id_0 (%)'', 10 :: real)]"
    "get_gpu_stat float_of_digits smi ''fan.speed'' ''%'' =
             Inr [(''gpu_fan.speed/gpu_id_0 (%)'', 10 :: real)]"
    by (simp_all add: smi_def stat_defs)
  have val: "r = (None, fresh\<lparr>logged :=
      [([(''gpu_memory.used/gpu_id_0 (MB)'', 10)], 7),
       ([(''gpu_memory.free/gpu_id_0 (MB)'', 10)], 7),
       ([(''gpu_utilization.memory/gpu_id_0 (%)'', 10)], 7),
       ([(''gpu_fan.speed/gpu_id_0 (%)'', 10)], 7)]\<rparr>)"
    by (simp add: r_def cfg_def hook_defs input_defs q)
  have mem: "memory_utilization cfg" by (simp add: cfg_def input_defs)
  have ok: "on_train_batch_start float_of_digits smi cfg (trainer_at 7) fresh = (None, snd r) \<or>
            on_train_batch_end float_of_digits smi cfg (trainer_at 7) fresh = (None, snd r)"
    using val by (simp add: r_def)
  from memory_composite_three_calls [OF mem ok]
  obtain used free umem before after where
    "get_gpu_stat float_of_digits smi ''memory.used'' ''MB'' = Inr used"
    "get_gpu_stat float_of_digits smi ''memory.free'' ''MB'' = Inr free"
    "get_gpu_stat float_of_digits smi ''utilization.memory'' ''%'' = Inr umem"
    "emitted fresh (snd r) =
       before @ [(used, global_step (trainer_at 7)), (free, global_step (trainer_at 7)),
                 (umem, global_step (trainer_at 7))] @ after"
    by blast
  then show ?thesis
    using val by (simp add: q r_def smi_def cfg_def emitted_def fresh_def trainer_at_def)
qed

subsection \<open>The step-start timestamp across step-ends\<close>

lemma start_keeps_stamp:
  "snap_intra_step_time s = Stamp u \<Longrightarrow>
     \<exists>u'. snap_intra_step_time (snd (on_train_batch_start flt smi cfg tr s)) = Stamp u'"
  by (simp add: on_train_batch_start_split and_then_def emit_def log_elapsed_def if_set_def
      time_time_def log_metrics_def split: option.splits slot.splits prod.splits)

lemma end_calls_keep_snap_intra:
  "snap_intra_step_time (snd (end_calls flt cfg cs s)) = snap_intra_step_time s"
proof (induction cs arbitrary: s)
  case Nil
  show ?case by simp
next
  case (Cons c cs)
  obtain smi tr ticks where c: "c = (smi, tr, ticks)" by (cases c)
  obtain r s1 where r: "on_train_batch_end flt smi cfg tr (s\<lparr>clock := ticks\<rparr>) = (r, s1)"
    by (cases "on_train_batch_end flt smi cfg tr (s\<lparr>clock := ticks\<rparr>)")
  have first: "snap_intra_step_time s1 = snap_intra_step_time s"
    using end_keeps_snap_intra [of flt smi cfg tr "s\<lparr>clock := ticks\<rparr>"] r by simp
  show ?case
  proof (cases r)
    case None
    with r have "end_calls flt cfg (c # cs) s = end_calls flt cfg cs s1"
      by (simp add: c and_then_def call_end_def with_clock_def)
    with Cons.IH [of s1] first show ?thesis by simp
  next
    case (Some e)
    with r have "end_calls flt cfg (c # cs) s = (Some e, s1)"
      by (simp add: c and_then_def call_end_def with_clock_def)
    with first show ?thesis by simp
  qed
qed

text \<open>
  Claim C10, as amended. \<^verbatim>\<open>on_train_batch_end\<close> never assigns the step-start timestamp,
  \<^verbatim>\<open>on_train_epoch_start\<close> sets it to \<^verbatim>\<open>None\<close>, and \<^verbatim>\<open>on_train_batch_start\<close> leaves a
  timestamp or replaces it by another. With intra-step timing on, take any step-start
  of the epoch that returns, at a time \<open>t\<close> other than 0 and from any state, then any
  number of step-end calls, then one more step-end call, at the time \<open>now\<close>, that returns
  without raising. This last call logs one intra-step metric, \<open>(now - t) * 1000\<close>: every
  step-end that returns computes its metric from the most recent step-start, whether or
  not other step-ends came between. The statement says nothing of a step-start at the
  time 0.
\<close>

theorem step_start_timestamp_kept:
  assumes intra: "intra_step_time cfg" and nz: "t \<noteq> 0"
    and h0: "at_time t (on_train_batch_start flt smi cfg tr) s = (None, s1)"
    and mid: "snd (end_calls flt cfg cs s1) = s2"
    and h: "at_time now (on_train_batch_end flt smi1 cfg tr1) s2 = (None, s3)"
  shows "snap_intra_step_time s1 = Stamp t \<and> snap_intra_step_time s2 = Stamp t \<and>
         snap_intra_step_time s3 = Stamp t \<and>
         batches_named ''batch_time/intra_step (ms)'' (emitted s2 s3) =
           [([(''batch_time/intra_step (ms)'', (now - t) * 1000)], global_step tr1)] \<and>
         snap_intra_step_time (snd (on_train_batch_end flt' smi' cfg' tr' s')) =
           snap_intra_step_time s' \<and>
         snap_intra_step_time (on_train_epoch_start s') = PyNone \<and>
         ((\<exists>u. snap_intra_step_time s' = Stamp u) \<longrightarrow>
          (\<exists>u. snap_intra_step_time (snd (on_train_batch_start flt' smi' cfg' tr' s')) = Stamp u))"
proof -
  have i1: "snap_intra_step_time s1 = Stamp t"
    using start_at(3) [OF h0] intra by simp
  have i2: "snap_intra_step_time s2 = Stamp t"
    using end_calls_keep_snap_intra [of flt cfg cs s1] mid i1 by simp
  have i3: "snap_intra_step_time s3 = Stamp t"
    using end_at(2) [OF h] i2 by simp
  have e3: "emitted s2 s3 = snd (query_all flt smi1 tr1 (end_fields cfg)) @
              [([(''batch_time/intra_step (ms)'', (now - t) * 1000)], global_step tr1)]"
    using end_at(1) [OF h] i2 intra nz by (simp add: emitted_def elapsed_calls_def)
  have b3: "batches_named ''batch_time/intra_step (ms)'' (emitted s2 s3) =
           [([(''batch_time/intra_step (ms)'', (now - t) * 1000)], global_step tr1)]"
    unfolding e3
    by (simp add: batches_named_append batches_named_Cons batches_named_Nil batches_named_query_all)
  have reset: "snap_intra_step_time (on_train_epoch_start s') = PyNone"
    by (simp add: on_train_epoch_start_def)
  from i1 i2 i3 b3 reset end_keeps_snap_intra [of flt' smi' cfg' tr' s']
    start_keeps_stamp [of s' _ flt' smi' cfg' tr']
  show ?thesis by blast
qed

text \<open>
  The claim as stated fails when a device query of the step-end fails: after a
  step-start at the time 1 the step-end raises \<^verbatim>\<open>CalledProcessError\<close> before its timing
  code and logs no intra-step metric.
\<close>

theorem step_start_timestamp_kept_counterexample:
  "(let cfg = timing_only\<lparr>gpu_utilization := True\<rparr>;
        r1 = at_time 1 (on_train_batch_start float_of_digits (\<lambda>_. Exited 0 ''10'') cfg (trainer_at 0))
               (on_train_epoch_start fresh);
        r2 = at_time 2 (on_train_batch_end float_of_digits (\<lambda>_. Exited 1 []) cfg (trainer_at 0)) (snd r1)
    in fst r1 = None \<and> snap_intra_step_time (snd r1) = Stamp 1 \<and>
       fst r2 = Some (CalledProcessError 1) \<and>
       batches_named ''batch_time/intra_step (ms)'' (emitted (snd r1) (snd r2)) = [])"
proof -
  define good :: "string \<Rightarrow> run_result" where "good = (\<lambda>_. Exited 0 ''10'')"
  define bad :: "string \<Rightarrow> run_result" where "bad = (\<lambda>_. Exited 1 [])"
  define cfg where "cfg = timing_only\<lparr>gpu_utilization := True\<rparr>"
  define r1 where "r1 = at_time 1 (on_train_batch_start float_of_digits good cfg (trainer_at 0))
               (on_train_epoch_start fresh)"
  define r2 where "r2 = at_time 2 (on_train_batch_end float_of_digits bad cfg (trainer_at 0)) (snd r1)"
  have g: "get_gpu_stat float_of_digits good ''utilization.gpu'' ''%'' =
             Inr [(''gpu_utilization.gpu/gpu_id_0 (%)'', 10 :: real)]"
    by (simp add: good_def stat_defs)
  have b: "get_gpu_stat float_of_digits bad ''utilization.gpu'' ''%'' =
             (Inl (CalledProcessError 1) :: error + real metrics)"
    by (simp add: bad_def get_gpu_stat_def)
  have flags: "gpu_utilization cfg" "\<not> memory_utilization cfg" "intra_step_time cfg"
    "inter_step_time cfg" "\<not> fan_speed cfg" "\<not> temperature cfg"
    by (simp_all add: cfg_def timing_only_def all_off_def)
  have tr: "logger (trainer_at n)" "global_step (trainer_at n) = n" for n
    by (simp_all add: trainer_at_def)
  have a1: "fst r1 = None" "snap_intra_step_time (snd r1) = Stamp 1"
    by (simp_all add: r1_def hook_defs fresh_def flags tr g)
  have a2: "fst r2 = Some (CalledProcessError 1)" "logged (snd r2) = logged (snd r1)"
    by (simp_all add: r2_def hook_defs flags tr b)
  have "fst r1 = None \<and> snap_intra_step_time (snd r1) = Stamp 1 \<and>
       fst r2 = Some (CalledProcessError 1) \<and>
       batches_named ''batch_time/intra_step (ms)'' (emitted (snd r1) (snd r2)) = []"
    by (simp add: a1 a2 emitted_def batches_named_def)
  then show ?thesis
    unfolding Let_def r2_def r1_def cfg_def good_def bad_def .
qed

text \<open>A step-start at time 1, two step-ends at the times 2 and 3, and a step-end at time 4.\<close>

theorem step_start_timestamp_kept_witness:
  "(let s1 = snd (at_time 1 (on_train_batch_start float_of_digits (\<lambda>_. NotStarted) timing_only
                    (trainer_at 0)) (on_train_epoch_start fresh));
        s2 = snd (end_calls float_of_digits timing_only
                    [(\<lambda>_. NotStarted, trainer_at 0, \<lambda>_. 2), (\<lambda>_. NotStarted, trainer_at 1, \<lambda>_. 3)] s1);
        s3 = snd (at_time 4 (on_train_batch_end float_of_digits (\<lambda>_. NotStarted) timing_only
                    (trainer_at 2)) s2)
    in snap_intra_step_time s3 = Stamp 1 \<and>
       batches_named ''batch_time/intra_step (ms)'' (emitted s2 s3) =
         [([(''batch_time/intra_step (ms)'', (4 - 1) * 1000)], 2)])"
proof -
  define smi :: "string \<Rightarrow> run_result" where "smi = (\<lambda>_. NotStarted)"
  define r1 where "r1 = at_time 1 (on_train_batch_start float_of_digits smi timing_only (trainer_at 0))
                    (on_train_epoch_start fresh)"
  define s2 where "s2 = snd (end_calls float_of_digits timing_only
                    [(smi, trainer_at 0, \<lambda>_. 2), (smi, trainer_at 1, \<lambda>_. 3)] (snd r1))"
  define r3 where "r3 = at_time 4 (on_train_batch_end float_of_digits smi timing_only (trainer_at 2)) s2"
  have flags: "\<not> gpu_utilization timing_only" "\<not> memory_utilization timing_only"
    "intra_step_time timing_only" "inter_step_time timing_only" "\<not> fan_speed timing_only"
    "\<not> temperature timing_only"
    by (simp_all add: timing_only_def all_off_def)
  have tr: "logger (trainer_at n)" "global_step (trainer_at n) = n" for n
    by (simp_all add: trainer_at_def)
  have a1: "fst r1 = None" "snap_intra_step_time (snd r1) = Stamp 1"
    by (simp_all add: r1_def hook_defs fresh_def flags tr)
  have a2: "snap_intra_step_time s2 = Stamp 1"
    by (simp add: s2_def hook_defs flags tr a1)
  have a3: "fst r3 = None"
    by (simp add: r3_def hook_defs flags tr a2)
  have h1: "at_time 1 (on_train_batch_start float_of_digits smi timing_only (trainer_at 0))
              (on_train_epoch_start fresh) = (None, snd r1)"
    using a1(1) by (simp add: prod_eq_iff r1_def)
  have h3: "at_time 4 (on_train_batch_end float_of_digits smi timing_only (trainer_at 2)) s2
              = (None, snd r3)"
    using a3 by (simp add: prod_eq_iff r3_def)
  from step_start_timestamp_kept [where flt' = "float_of_digits :: string \<Rightarrow> real option"
      and smi' = smi and cfg' = timing_only and tr' = "trainer_at 0" and s' = fresh,
      OF flags(3) _ h1 s2_def [symmetric] h3]
  have "snap_intra_step_time (snd r3) = Stamp 1 \<and>
       batches_named ''batch_time/intra_step (ms)'' (emitted s2 (snd r3)) =
         [([(''batch_time/intra_step (ms)'', (4 - 1) * 1000)], 2)]"
    by (simp add: tr)
  then show ?thesis
    unfolding Let_def r3_def s2_def r1_def smi_def .
qed

text \<open>
  After a step-start at the time 0 the step-end returns and logs nothing: the test
  \<^verbatim>\<open>flag and self.snap\<close> takes the timestamp 0 for an absent one.
\<close>

lemma step_end_zero_timestamp:
  "intra_step_time timing_only \<and>
   run_epoch float_of_digits timing_only
     [((\<lambda>_. NotStarted, trainer_at 0, \<lambda>_. 0), (\<lambda>_. NotStarted, trainer_at 0, \<lambda>_. 5))] fresh =
   (None, \<lparr>snap_intra_step_time = Stamp 0, snap_inter_step_time = Stamp 5,
           clock = (\<lambda>_. 5), logged = []\<rparr>)"
  by (simp add: hook_defs input_defs)

end
